theory Spec2Isabelle
  imports Complex_Main
begin

section \<open>Floating-point values\<close>

text \<open>
  The C++ code computes with \<^verbatim>\<open>float\<close> and \<^verbatim>\<open>double\<close> and tests values with
  \<^verbatim>\<open>std::isnan\<close> and \<^verbatim>\<open>std::isinf\<close>.  A value is therefore a finite real, an
  infinity or NaN.  Arithmetic on finite values is exact (rounding and overflow are left
  out); infinities and NaN propagate as in IEEE 754 (the sign of zero is left out: a zero
  divisor counts as positive).
\<close>

datatype fval = Fin real | PInf | NInf | NaN

definition isnan :: "fval \<Rightarrow> bool" where
  "isnan v = (v = NaN)"

definition isinf :: "fval \<Rightarrow> bool" where
  "isinf v = (v = PInf \<or> v = NInf)"

definition infOfSign :: "real \<Rightarrow> fval" where
  "infOfSign s = (if 0 < s then PInf else if s < 0 then NInf else NaN)"

fun fneg :: "fval \<Rightarrow> fval" where
  "fneg (Fin a) = Fin (- a)"
| "fneg PInf = NInf"
| "fneg NInf = PInf"
| "fneg NaN = NaN"

fun fadd :: "fval \<Rightarrow> fval \<Rightarrow> fval" where
  "fadd NaN _ = NaN"
| "fadd _ NaN = NaN"
| "fadd PInf NInf = NaN"
| "fadd NInf PInf = NaN"
| "fadd PInf _ = PInf"
| "fadd _ PInf = PInf"
| "fadd NInf _ = NInf"
| "fadd _ NInf = NInf"
| "fadd (Fin a) (Fin b) = Fin (a + b)"

definition fsub :: "fval \<Rightarrow> fval \<Rightarrow> fval" where
  "fsub a b = fadd a (fneg b)"

fun fmul :: "fval \<Rightarrow> fval \<Rightarrow> fval" where
  "fmul NaN _ = NaN"
| "fmul _ NaN = NaN"
| "fmul (Fin a) (Fin b) = Fin (a * b)"
| "fmul PInf (Fin b) = infOfSign b"
| "fmul NInf (Fin b) = infOfSign (- b)"
| "fmul (Fin a) PInf = infOfSign a"
| "fmul (Fin a) NInf = infOfSign (- a)"
| "fmul PInf PInf = PInf"
| "fmul PInf NInf = NInf"
| "fmul NInf PInf = NInf"
| "fmul NInf NInf = PInf"

fun fdiv :: "fval \<Rightarrow> fval \<Rightarrow> fval" where
  "fdiv NaN _ = NaN"
| "fdiv _ NaN = NaN"
| "fdiv (Fin a) (Fin b) = (if b = 0 then infOfSign a else Fin (a / b))"
| "fdiv (Fin a) _ = Fin 0"
| "fdiv PInf (Fin b) = (if 0 \<le> b then PInf else NInf)"
| "fdiv NInf (Fin b) = (if 0 \<le> b then NInf else PInf)"
| "fdiv _ _ = NaN"

text \<open>The comparison \<^verbatim>\<open>a < b\<close>: false whenever an operand is NaN.\<close>

fun fless :: "fval \<Rightarrow> fval \<Rightarrow> bool" where
  "fless (Fin a) (Fin b) = (a < b)"
| "fless NInf (Fin b) = True"
| "fless NInf PInf = True"
| "fless (Fin a) PInf = True"
| "fless _ _ = False"

text \<open>\<^verbatim>\<open>std::log10\<close> and \<^verbatim>\<open>std::pow (10, x)\<close>.\<close>

fun flog10 :: "fval \<Rightarrow> fval" where
  "flog10 (Fin a) = (if 0 < a then Fin (log 10 a) else if a = 0 then NInf else NaN)"
| "flog10 PInf = PInf"
| "flog10 NInf = NaN"
| "flog10 NaN = NaN"

fun fpow10 :: "fval \<Rightarrow> fval" where
  "fpow10 (Fin a) = Fin (10 powr a)"
| "fpow10 PInf = PInf"
| "fpow10 NInf = Fin 0"
| "fpow10 NaN = NaN"

text \<open>
  \<^verbatim>\<open>static_cast<int> (std::floor (x))\<close>: the conversion of a value that is not finite is
  undefined behaviour, here no result.
\<close>

fun floorToInt :: "fval \<Rightarrow> int option" where
  "floorToInt (Fin a) = Some \<lfloor>a\<rfloor>"
| "floorToInt _ = None"

section \<open>Library functions the code calls (JUCE)\<close>

text \<open>
  The functions of this section belong to the JUCE library, not to the repository; each is
  written from its definition in \<^verbatim>\<open>juce_MathsFunctions.h\<close> and \<^verbatim>\<open>juce_Decibels.h\<close>.
\<close>

definition jmax :: "fval \<Rightarrow> fval \<Rightarrow> fval" where
  "jmax a b = (if fless a b then b else a)"

definition jmap :: "fval \<Rightarrow> fval \<Rightarrow> fval \<Rightarrow> fval \<Rightarrow> fval \<Rightarrow> fval" where
  "jmap sourceValue sourceRangeMin sourceRangeMax targetRangeMin targetRangeMax =
     fadd targetRangeMin
       (fdiv (fmul (fsub targetRangeMax targetRangeMin) (fsub sourceValue sourceRangeMin))
             (fsub sourceRangeMax sourceRangeMin))"

definition mapToLog10 :: "fval \<Rightarrow> fval \<Rightarrow> fval \<Rightarrow> fval" where
  "mapToLog10 value0To1 logRangeMin logRangeMax =
     (let logMin = flog10 logRangeMin; logMax = flog10 logRangeMax
      in fpow10 (fadd (fmul value0To1 (fsub logMax logMin)) logMin))"

definition mapFromLog10 :: "fval \<Rightarrow> fval \<Rightarrow> fval \<Rightarrow> fval" where
  "mapFromLog10 valueInLogRange logRangeMin logRangeMax =
     (let logMin = flog10 logRangeMin; logMax = flog10 logRangeMax
      in fdiv (fsub (flog10 valueInLogRange) logMin) (fsub logMax logMin))"

definition gainToDecibels :: "fval \<Rightarrow> fval \<Rightarrow> fval" where
  "gainToDecibels gain minusInfinityDb =
     (if fless (Fin 0) gain then jmax minusInfinityDb (fmul (flog10 gain) (Fin 20))
      else minusInfinityDb)"

text \<open>The default floor of \<^verbatim>\<open>Decibels::gainToDecibels\<close> and \<^verbatim>\<open>decibelsToGain\<close>.\<close>

definition defaultMinusInfinitydB :: fval where
  "defaultMinusInfinitydB = Fin (- 100)"

definition decibelsToGain :: "fval \<Rightarrow> fval" where
  "decibelsToGain decibels =
     (if fless defaultMinusInfinitydB decibels then fpow10 (fmul decibels (Fin 0.05))
      else Fin 0)"

section \<open>The block queue\<close>

text \<open>
  Modelled from the spec: the class template \<^verbatim>\<open>Fifo\<close> is declared in
  \<^verbatim>\<open>PluginProcessor.h\<close>, which is not among the sources.  Spec 3 and 4.1: a queue of
  fixed capacity; \<^verbatim>\<open>push\<close> copies the item into the next write slot and returns true, or
  returns false and drops the item when the queue is full; \<^verbatim>\<open>pull\<close> copies the oldest
  unread item out and advances the read cursor, or returns false when the queue is empty.
  The slots between the read and the write cursor are the list \<open>fifoBuffers\<close>, oldest
  first.
\<close>

record 'a Fifo =
  fifoCapacity :: nat
  fifoBuffers :: "'a list"

text \<open>Modelled from the spec: \<^verbatim>\<open>Fifo::push\<close> (spec 4.1), the header is missing.\<close>

definition push :: "'a \<Rightarrow> 'a Fifo \<Rightarrow> bool \<times> 'a Fifo" where
  "push t q =
     (if length (fifoBuffers q) < fifoCapacity q
      then (True, q\<lparr>fifoBuffers := fifoBuffers q @ [t]\<rparr>)
      else (False, q))"

text \<open>Modelled from the spec: \<^verbatim>\<open>Fifo::pull\<close> (spec 4.1), the header is missing.\<close>

definition pull :: "'a Fifo \<Rightarrow> ('a \<times> 'a Fifo) option" where
  "pull q =
     (case fifoBuffers q of
        [] \<Rightarrow> None
      | t # rest \<Rightarrow> Some (t, q\<lparr>fifoBuffers := rest\<rparr>))"

text \<open>Modelled from the spec: \<^verbatim>\<open>Fifo::getNumAvailableForReading\<close>, the count
  \<^verbatim>\<open>availableForReading\<close> of spec 4.1; the header is missing.\<close>

definition getNumAvailableForReading :: "'a Fifo \<Rightarrow> nat" where
  "getNumAvailableForReading q = length (fifoBuffers q)"

section \<open>Filters, chains and settings\<close>

text \<open>
  A \<^verbatim>\<open>juce::dsp::IIR::Filter\<close> holds its coefficient object (an array of numbers) and its
  delay registers.  \<^verbatim>\<open>CutFilter\<close> is a chain of four filters with one bypass flag each;
  \<^verbatim>\<open>MonoChain\<close> is the chain low cut, peak, high cut with one bypass flag per position.
\<close>

type_synonym Coefficients = "fval list"

record Filter =
  coefficients :: Coefficients
  filterState :: "fval list"

record CutFilter =
  cut0 :: Filter
  cut1 :: Filter
  cut2 :: Filter
  cut3 :: Filter
  cutBypassed0 :: bool
  cutBypassed1 :: bool
  cutBypassed2 :: bool
  cutBypassed3 :: bool

record MonoChain =
  lowCut :: CutFilter
  peak :: Filter
  highCut :: CutFilter
  bypassedLowCut :: bool
  bypassedPeak :: bool
  bypassedHighCut :: bool

text \<open>
  \<^verbatim>\<open>ChainSettings\<close>, with the fields \<^verbatim>\<open>getChainSettings\<close> assigns.  A slope is the value
  of the enumeration \<^verbatim>\<open>Slope\<close> (0 for 12 dB/Oct up to 3 for 48 dB/Oct).
\<close>

record ChainSettings =
  lowCutFreq :: real
  highCutFreq :: real
  peakFreq :: real
  peakGainInDecibels :: real
  peakQuality :: real
  lowCutSlope :: int
  highCutSlope :: int
  lowCutBypassed :: bool
  peakBypassed :: bool
  highCutBypassed :: bool

text \<open>
  The parameter store: the value \<^verbatim>\<open>getRawParameterValue (name)->load()\<close> of each
  parameter.  The state tree it is saved to and restored from is a \<^verbatim>\<open>juce::ValueTree\<close>.
\<close>

type_synonym APVTS = "string \<Rightarrow> real"

datatype ValueTree = ValueTree string "(string \<times> real) list" "ValueTree list"

text \<open>
  What the code calls and the sources do not hold.  The JUCE library: the peak filter
  design, the processing of a block of samples by one IIR filter (coefficients, delay
  registers and samples in; samples and delay registers out), the magnitude response of a
  coefficient set at a frequency, the windowing table, the frequency-only forward
  transform, the parsing of a state tree (\<open>None\<close> is the invalid tree) and
  \<^verbatim>\<open>replaceState\<close>.  The header \<^verbatim>\<open>PluginProcessor.h\<close>: the cut filter designs
  \<^verbatim>\<open>makeLowCutFilter\<close> and \<^verbatim>\<open>makeHighCutFilter\<close>.  They are parameters of the model.
\<close>

record Ext =
  iirMakePeakFilter :: "real \<Rightarrow> real \<Rightarrow> real \<Rightarrow> fval \<Rightarrow> Coefficients"
  makeLowCutFilter :: "ChainSettings \<Rightarrow> real \<Rightarrow> Coefficients list"
  makeHighCutFilter :: "ChainSettings \<Rightarrow> real \<Rightarrow> Coefficients list"
  iirProcess :: "Coefficients \<Rightarrow> fval list \<Rightarrow> fval list \<Rightarrow> fval list \<times> fval list"
  getMagnitudeForFrequency :: "Coefficients \<Rightarrow> fval \<Rightarrow> real \<Rightarrow> fval"
  multiplyWithWindowingTable :: "nat \<Rightarrow> fval list \<Rightarrow> fval list"
  performFrequencyOnlyForwardTransform :: "nat \<Rightarrow> fval list \<Rightarrow> fval list"
  readFromData :: "nat list \<Rightarrow> ValueTree option"
  replaceState :: "ValueTree \<Rightarrow> APVTS \<Rightarrow> APVTS"

datatype error = ChannelOutOfRange nat | IndexOutOfRange | InvalidConversion

text \<open>\<^verbatim>\<open>static_cast\<close> of a number to the enumeration: truncation towards zero.\<close>

definition truncToInt :: "real \<Rightarrow> int" where
  "truncToInt r = (if 0 \<le> r then \<lfloor>r\<rfloor> else \<lceil>r\<rceil>)"

definition getChainSettings :: "APVTS \<Rightarrow> ChainSettings" where
  "getChainSettings apvts =
     \<lparr> lowCutFreq = apvts ''LowCut Freq'',
       highCutFreq = apvts ''HighCut Freq'',
       peakFreq = apvts ''Peak Freq'',
       peakGainInDecibels = apvts ''Peak Gain'',
       peakQuality = apvts ''Peak Quality'',
       lowCutSlope = truncToInt (apvts ''LowCut Slope''),
       highCutSlope = truncToInt (apvts ''HighCut Slope''),
       lowCutBypassed = (apvts ''LowCut Bypassed'' > 0.5),
       peakBypassed = (apvts ''Peak Bypassed'' > 0.5),
       highCutBypassed = (apvts ''HighCut Bypassed'' > 0.5) \<rparr>"

definition makePeakFilter :: "Ext \<Rightarrow> ChainSettings \<Rightarrow> real \<Rightarrow> Coefficients" where
  "makePeakFilter J chainSettings sampleRate =
     iirMakePeakFilter J sampleRate (peakFreq chainSettings) (peakQuality chainSettings)
       (decibelsToGain (Fin (peakGainInDecibels chainSettings)))"

text \<open>\<^verbatim>\<open>*old = *replacements\<close>: the values are copied into the filter's coefficient object.\<close>

definition updateCoefficients :: "Filter \<Rightarrow> Coefficients \<Rightarrow> Filter" where
  "updateCoefficients old replacements = old\<lparr>coefficients := replacements\<rparr>"

text \<open>
  Modelled from the spec: \<^verbatim>\<open>updateCutFilter\<close> is defined in \<^verbatim>\<open>PluginProcessor.h\<close>, which
  is not among the sources.  Spec 3 and 4.2: the order (slope + 1) is the number of active
  sections of the band; an active section takes its coefficient set, the sections beyond
  the order are bypassed.  (A section whose coefficient set the design did not deliver
  stays bypassed.)
\<close>

definition cutSectionActive :: "Coefficients list \<Rightarrow> int \<Rightarrow> nat \<Rightarrow> bool" where
  "cutSectionActive cs slope k = (int k \<le> slope \<and> k < length cs)"

definition updateCutSection :: "Coefficients list \<Rightarrow> int \<Rightarrow> nat \<Rightarrow> Filter \<Rightarrow> Filter" where
  "updateCutSection cs slope k f =
     (if cutSectionActive cs slope k then updateCoefficients f (cs ! k) else f)"

definition updateCutFilter :: "CutFilter \<Rightarrow> Coefficients list \<Rightarrow> int \<Rightarrow> CutFilter" where
  "updateCutFilter chain cs slope =
     chain\<lparr> cut0 := updateCutSection cs slope 0 (cut0 chain),
            cut1 := updateCutSection cs slope 1 (cut1 chain),
            cut2 := updateCutSection cs slope 2 (cut2 chain),
            cut3 := updateCutSection cs slope 3 (cut3 chain),
            cutBypassed0 := \<not> cutSectionActive cs slope 0,
            cutBypassed1 := \<not> cutSectionActive cs slope 1,
            cutBypassed2 := \<not> cutSectionActive cs slope 2,
            cutBypassed3 := \<not> cutSectionActive cs slope 3 \<rparr>"

section \<open>The processor\<close>

type_synonym AudioBuffer = "fval list list"

text \<open>
  Modelled from the spec: \<^verbatim>\<open>SingleChannelSampleFifo\<close> is defined in
  \<^verbatim>\<open>PluginProcessor.h\<close>, which is not among the sources.  Spec 2 and 5: the processed
  block of the collector's channel is copied into its queue by a push that never blocks; a
  block that does not fit is dropped.
\<close>

record SingleChannelSampleFifo =
  channelToUse :: nat
  audioBufferFifo :: "fval list Fifo"

text \<open>Modelled from the spec: \<^verbatim>\<open>SingleChannelSampleFifo::update\<close> (spec 2 and 5), the
  header is missing.\<close>

definition update :: "AudioBuffer \<Rightarrow> SingleChannelSampleFifo \<Rightarrow> error + SingleChannelSampleFifo" where
  "update buffer s =
     (if channelToUse s < length buffer
      then Inr (s\<lparr>audioBufferFifo := snd (push (buffer ! channelToUse s) (audioBufferFifo s))\<rparr>)
      else Inl (ChannelOutOfRange (channelToUse s)))"

text \<open>Modelled from the spec: the two readers of \<^verbatim>\<open>SingleChannelSampleFifo\<close>, which the
  polling task drains the queue with (spec 2); the header is missing.\<close>

definition getNumCompleteBuffersAvailable :: "SingleChannelSampleFifo \<Rightarrow> nat" where
  "getNumCompleteBuffersAvailable s = getNumAvailableForReading (audioBufferFifo s)"

definition getAudioBuffer :: "SingleChannelSampleFifo \<Rightarrow> (fval list \<times> SingleChannelSampleFifo) option" where
  "getAudioBuffer s =
     (case pull (audioBufferFifo s) of
        None \<Rightarrow> None
      | Some (buf, q) \<Rightarrow> Some (buf, s\<lparr>audioBufferFifo := q\<rparr>))"

record ZooEQAudioProcessor =
  apvts :: APVTS
  sampleRate :: real
  totalNumInputChannels :: nat
  totalNumOutputChannels :: nat
  leftChain :: MonoChain
  rightChain :: MonoChain
  leftChannelFifo :: SingleChannelSampleFifo
  rightChannelFifo :: SingleChannelSampleFifo

definition updatePeakFilter :: "Ext \<Rightarrow> ChainSettings \<Rightarrow> ZooEQAudioProcessor \<Rightarrow> ZooEQAudioProcessor" where
  "updatePeakFilter J chainSettings p =
     (let l1 = (leftChain p)\<lparr>bypassedPeak := peakBypassed chainSettings\<rparr>;
          r1 = (rightChain p)\<lparr>bypassedPeak := peakBypassed chainSettings\<rparr>;
          peakCoefficients = makePeakFilter J chainSettings (sampleRate p);
          l2 = l1\<lparr>peak := updateCoefficients (peak l1) peakCoefficients\<rparr>;
          r2 = r1\<lparr>peak := updateCoefficients (peak r1) peakCoefficients\<rparr>
      in p\<lparr>leftChain := l2, rightChain := r2\<rparr>)"

definition updateLowCutFilters :: "Ext \<Rightarrow> ChainSettings \<Rightarrow> ZooEQAudioProcessor \<Rightarrow> ZooEQAudioProcessor" where
  "updateLowCutFilters J chainSettings p =
     (let l1 = (leftChain p)\<lparr>bypassedLowCut := lowCutBypassed chainSettings\<rparr>;
          r1 = (rightChain p)\<lparr>bypassedLowCut := lowCutBypassed chainSettings\<rparr>;
          lowCutCoefficients = makeLowCutFilter J chainSettings (sampleRate p);
          l2 = l1\<lparr>lowCut := updateCutFilter (lowCut l1) lowCutCoefficients (lowCutSlope chainSettings)\<rparr>;
          r2 = r1\<lparr>lowCut := updateCutFilter (lowCut r1) lowCutCoefficients (lowCutSlope chainSettings)\<rparr>
      in p\<lparr>leftChain := l2, rightChain := r2\<rparr>)"

definition updateHighCutFilter :: "Ext \<Rightarrow> ChainSettings \<Rightarrow> ZooEQAudioProcessor \<Rightarrow> ZooEQAudioProcessor" where
  "updateHighCutFilter J chainSettings p =
     (let l1 = (leftChain p)\<lparr>bypassedHighCut := highCutBypassed chainSettings\<rparr>;
          r1 = (rightChain p)\<lparr>bypassedHighCut := highCutBypassed chainSettings\<rparr>;
          highCutCoefficients = makeHighCutFilter J chainSettings (sampleRate p);
          l2 = l1\<lparr>highCut := updateCutFilter (highCut l1) highCutCoefficients (highCutSlope chainSettings)\<rparr>;
          r2 = r1\<lparr>highCut := updateCutFilter (highCut r1) highCutCoefficients (highCutSlope chainSettings)\<rparr>
      in p\<lparr>leftChain := l2, rightChain := r2\<rparr>)"

definition updateFilters :: "Ext \<Rightarrow> ZooEQAudioProcessor \<Rightarrow> ZooEQAudioProcessor" where
  "updateFilters J p =
     (let chainSettings = getChainSettings (apvts p)
      in updateHighCutFilter J chainSettings
           (updatePeakFilter J chainSettings
              (updateLowCutFilters J chainSettings p)))"

text \<open>
  \<^verbatim>\<open>ProcessorChain::process\<close>: every processor of the chain that is not bypassed processes
  the block in place, in the order of the chain.
\<close>

definition processFilter :: "Ext \<Rightarrow> Filter \<Rightarrow> fval list \<Rightarrow> fval list \<times> Filter" where
  "processFilter J f samples =
     (let (out, st) = iirProcess J (coefficients f) (filterState f) samples
      in (out, f\<lparr>filterState := st\<rparr>))"

definition processCutFilter :: "Ext \<Rightarrow> CutFilter \<Rightarrow> fval list \<Rightarrow> fval list \<times> CutFilter" where
  "processCutFilter J c samples =
     (let (s0, c0) = (if cutBypassed0 c then (samples, c)
                      else (let (out, f) = processFilter J (cut0 c) samples in (out, c\<lparr>cut0 := f\<rparr>)));
          (s1, c1) = (if cutBypassed1 c0 then (s0, c0)
                      else (let (out, f) = processFilter J (cut1 c0) s0 in (out, c0\<lparr>cut1 := f\<rparr>)));
          (s2, c2) = (if cutBypassed2 c1 then (s1, c1)
                      else (let (out, f) = processFilter J (cut2 c1) s1 in (out, c1\<lparr>cut2 := f\<rparr>)));
          (s3, c3) = (if cutBypassed3 c2 then (s2, c2)
                      else (let (out, f) = processFilter J (cut3 c2) s2 in (out, c2\<lparr>cut3 := f\<rparr>)))
      in (s3, c3))"

definition processMonoChain :: "Ext \<Rightarrow> MonoChain \<Rightarrow> fval list \<Rightarrow> fval list \<times> MonoChain" where
  "processMonoChain J m samples =
     (let (s0, m0) = (if bypassedLowCut m then (samples, m)
                      else (let (out, c) = processCutFilter J (lowCut m) samples in (out, m\<lparr>lowCut := c\<rparr>)));
          (s1, m1) = (if bypassedPeak m0 then (s0, m0)
                      else (let (out, f) = processFilter J (peak m0) s0 in (out, m0\<lparr>peak := f\<rparr>)));
          (s2, m2) = (if bypassedHighCut m1 then (s1, m1)
                      else (let (out, c) = processCutFilter J (highCut m1) s1 in (out, m1\<lparr>highCut := c\<rparr>)))
      in (s2, m2))"

text \<open>
  \<^verbatim>\<open>buffer.clear (i, 0, numSamples)\<close> for the output channels without input; a channel
  index outside the buffer is an error.
\<close>

function clearChannels :: "nat \<Rightarrow> nat \<Rightarrow> AudioBuffer \<Rightarrow> error + AudioBuffer" where
  "clearChannels i n buffer =
     (if i < n
      then (if i < length buffer
            then clearChannels (i + 1) n (buffer[i := replicate (length (buffer ! i)) (Fin 0)])
            else Inl (ChannelOutOfRange i))
      else Inr buffer)"
  by pat_completeness auto
termination
  by (relation "measure (\<lambda>(i, n, buffer). n - i)") auto

declare clearChannels.simps [simp del]

text \<open>
  \<^verbatim>\<open>block.getSingleChannelBlock (c)\<close>: the samples of channel \<open>c\<close>; a channel index
  outside the block is an error (an assertion in a debug build, an undefined read
  otherwise).
\<close>

definition getSingleChannelBlock :: "AudioBuffer \<Rightarrow> nat \<Rightarrow> error + fval list" where
  "getSingleChannelBlock block c =
     (if c < length block then Inr (block ! c) else Inl (ChannelOutOfRange c))"

definition processBlock ::
  "Ext \<Rightarrow> ZooEQAudioProcessor \<Rightarrow> AudioBuffer \<Rightarrow> error + (ZooEQAudioProcessor \<times> AudioBuffer)" where
  "processBlock J p buffer =
     (case clearChannels (totalNumInputChannels p) (totalNumOutputChannels p) buffer of
        Inl e \<Rightarrow> Inl e
      | Inr buffer1 \<Rightarrow>
          (let p1 = updateFilters J p in
           case getSingleChannelBlock buffer1 0 of
             Inl e \<Rightarrow> Inl e
           | Inr leftBlock \<Rightarrow>
               (case getSingleChannelBlock buffer1 1 of
                  Inl e \<Rightarrow> Inl e
                | Inr rightBlock \<Rightarrow>
                    (let (leftOut, l) = processMonoChain J (leftChain p1) leftBlock;
                         (rightOut, r) = processMonoChain J (rightChain p1) rightBlock;
                         buffer2 = buffer1[0 := leftOut, 1 := rightOut];
                         p2 = p1\<lparr>leftChain := l, rightChain := r\<rparr>
                     in case update buffer2 (leftChannelFifo p2) of
                          Inl e \<Rightarrow> Inl e
                        | Inr lf \<Rightarrow>
                            (case update buffer2 (rightChannelFifo p2) of
                               Inl e \<Rightarrow> Inl e
                             | Inr rf \<Rightarrow>
                                 Inr (p2\<lparr>leftChannelFifo := lf, rightChannelFifo := rf\<rparr>, buffer2))))))"

text \<open>
  \<^verbatim>\<open>isBusesLayoutSupported\<close>.  The two preprocessor switches of the build,
  \<^verbatim>\<open>JucePlugin_IsMidiEffect\<close> and \<^verbatim>\<open>JucePlugin_IsSynth\<close>, are parameters.
\<close>

datatype AudioChannelSet = disabled | mono | stereo | discreteChannels nat

record BusesLayout =
  mainInputChannelSet :: AudioChannelSet
  mainOutputChannelSet :: AudioChannelSet

definition isBusesLayoutSupported :: "bool \<Rightarrow> bool \<Rightarrow> BusesLayout \<Rightarrow> bool" where
  "isBusesLayoutSupported isMidiEffect isSynth layouts =
     (if isMidiEffect then True
      else if mainOutputChannelSet layouts \<noteq> mono \<and> mainOutputChannelSet layouts \<noteq> stereo
           then False
      else if \<not> isSynth \<and> mainOutputChannelSet layouts \<noteq> mainInputChannelSet layouts
           then False
      else True)"

text \<open>The number of channels of a channel set, which is that of the buffer the host passes.\<close>

fun channelSetSize :: "AudioChannelSet \<Rightarrow> nat" where
  "channelSetSize disabled = 0"
| "channelSetSize mono = 1"
| "channelSetSize stereo = 2"
| "channelSetSize (discreteChannels n) = n"

definition setStateInformation :: "Ext \<Rightarrow> nat list \<Rightarrow> ZooEQAudioProcessor \<Rightarrow> ZooEQAudioProcessor" where
  "setStateInformation J data p =
     (case readFromData J data of
        None \<Rightarrow> p
      | Some tree \<Rightarrow> updateFilters J (p\<lparr>apvts := replaceState J tree (apvts p)\<rparr>))"

section \<open>The editor: spectrum analyser\<close>

text \<open>\<^verbatim>\<open>juce::Rectangle\<close> with the operations the editor uses, and \<^verbatim>\<open>juce::Path\<close>.\<close>

record 'a Rectangle =
  rectX :: 'a
  rectY :: 'a
  rectW :: 'a
  rectH :: 'a

definition removeFromTop :: "int \<Rightarrow> int Rectangle \<Rightarrow> int Rectangle" where
  "removeFromTop amountToRemove r =
     (let a = min amountToRemove (rectH r) in r\<lparr>rectY := rectY r + a, rectH := rectH r - a\<rparr>)"

definition removeFromBottom :: "int \<Rightarrow> int Rectangle \<Rightarrow> int Rectangle" where
  "removeFromBottom amountToRemove r =
     (let a = min amountToRemove (rectH r) in r\<lparr>rectH := rectH r - a\<rparr>)"

definition removeFromLeft :: "int \<Rightarrow> int Rectangle \<Rightarrow> int Rectangle" where
  "removeFromLeft amountToRemove r =
     (let a = min amountToRemove (rectW r) in r\<lparr>rectX := rectX r + a, rectW := rectW r - a\<rparr>)"

definition removeFromRight :: "int \<Rightarrow> int Rectangle \<Rightarrow> int Rectangle" where
  "removeFromRight amountToRemove r =
     (let a = min amountToRemove (rectW r) in r\<lparr>rectW := rectW r - a\<rparr>)"

definition getBottom :: "int Rectangle \<Rightarrow> int" where
  "getBottom r = rectY r + rectH r"

definition toFloat :: "int Rectangle \<Rightarrow> fval Rectangle" where
  "toFloat r =
     \<lparr> rectX = Fin (of_int (rectX r)), rectY = Fin (of_int (rectY r)),
       rectW = Fin (of_int (rectW r)), rectH = Fin (of_int (rectH r)) \<rparr>"

datatype PathElement = StartNewSubPath fval fval | LineTo fval fval

type_synonym Path = "PathElement list"

fun translateElement :: "fval \<Rightarrow> fval \<Rightarrow> PathElement \<Rightarrow> PathElement" where
  "translateElement dx dy (StartNewSubPath x y) = StartNewSubPath (fadd x dx) (fadd y dy)"
| "translateElement dx dy (LineTo x y) = LineTo (fadd x dx) (fadd y dy)"

record FFTDataGenerator =
  fftOrder :: nat
  fftData :: "fval list"
  fftDataFifo :: "fval list Fifo"

definition getFFTSize :: "FFTDataGenerator \<Rightarrow> nat" where
  "getFFTSize g = 2 ^ fftOrder g"

definition getNumAvailableFFTDataBlocks :: "FFTDataGenerator \<Rightarrow> nat" where
  "getNumAvailableFFTDataBlocks g = getNumAvailableForReading (fftDataFifo g)"

definition getFFTData :: "FFTDataGenerator \<Rightarrow> (fval list \<times> FFTDataGenerator) option" where
  "getFFTData g =
     (case pull (fftDataFifo g) of
        None \<Rightarrow> None
      | Some (d, q) \<Rightarrow> Some (d, g\<lparr>fftDataFifo := q\<rparr>))"

text \<open>The loop \<^verbatim>\<open>for (i = 0; i < numBins; ++i) data[i] = f (data[i])\<close>.\<close>

primrec forEachBin :: "nat \<Rightarrow> (fval \<Rightarrow> fval) \<Rightarrow> fval list \<Rightarrow> fval list" where
  "forEachBin 0 f d = d"
| "forEachBin (Suc n) f d = (let d' = forEachBin n f d in d'[n := f (d' ! n)])"

text \<open>
  \<^verbatim>\<open>produceFFTDataForRendering\<close>; \<open>audioData\<close> is channel 0 of the buffer.  A copy or a
  loop that leaves its vector is an error.
\<close>

definition produceFFTDataForRendering ::
  "Ext \<Rightarrow> fval list \<Rightarrow> fval \<Rightarrow> FFTDataGenerator \<Rightarrow> error + FFTDataGenerator" where
  "produceFFTDataForRendering J audioData negativeInfinity g =
     (let fftSize = getFFTSize g;
          d0 = replicate (length (fftData g)) (Fin 0)
      in if length audioData < fftSize \<or> length d0 < fftSize then Inl IndexOutOfRange
         else
           (let d1 = take fftSize audioData @ drop fftSize d0;
                d2 = multiplyWithWindowingTable J fftSize d1;
                d3 = performFrequencyOnlyForwardTransform J (fftOrder g) d2;
                numBins = fftSize div 2
            in if length d3 < numBins then Inl IndexOutOfRange
               else
                 (let d4 = forEachBin numBins (\<lambda>v. fdiv v (Fin (real numBins))) d3;
                      d5 = forEachBin numBins (\<lambda>v. gainToDecibels v negativeInfinity) d4
                  in Inr (g\<lparr>fftData := d5, fftDataFifo := snd (push d5 (fftDataFifo g))\<rparr>))))"

record AnalyserPathGenerator =
  pathFifo :: "Path Fifo"

definition getNumPathsAvailable :: "AnalyserPathGenerator \<Rightarrow> nat" where
  "getNumPathsAvailable pg = getNumAvailableForReading (pathFifo pg)"

definition getPath :: "AnalyserPathGenerator \<Rightarrow> (Path \<times> AnalyserPathGenerator) option" where
  "getPath pg =
     (case pull (pathFifo pg) of
        None \<Rightarrow> None
      | Some (p, q) \<Rightarrow> Some (p, pg\<lparr>pathFifo := q\<rparr>))"

text \<open>The lambda \<^verbatim>\<open>map\<close> of \<^verbatim>\<open>generatePath\<close>: bottom is the height of the bounds, top
  their y.\<close>

definition mapToBounds :: "fval Rectangle \<Rightarrow> fval \<Rightarrow> fval \<Rightarrow> fval" where
  "mapToBounds fftBounds negativeInfinity v =
     jmap v negativeInfinity (Fin 0) (rectH fftBounds) (rectY fftBounds)"

text \<open>The x coordinate of a bin: \<^verbatim>\<open>static_cast<int> (std::floor (normalizedBinX * width))\<close>.\<close>

definition binXOf :: "fval Rectangle \<Rightarrow> fval \<Rightarrow> nat \<Rightarrow> int option" where
  "binXOf fftBounds binWidth binNum =
     (let binFreq = fmul (Fin (real binNum)) binWidth;
          normalizedBinX = mapFromLog10 binFreq (Fin 20) (Fin 20000)
      in floorToInt (fmul normalizedBinX (rectW fftBounds)))"

text \<open>The loop of \<^verbatim>\<open>generatePath\<close> over the bins, from \<open>binNum\<close> on, with
  \<^verbatim>\<open>pathResolution = 2\<close>.\<close>

function generatePathLoop ::
  "fval list \<Rightarrow> fval Rectangle \<Rightarrow> nat \<Rightarrow> fval \<Rightarrow> fval \<Rightarrow> nat \<Rightarrow> Path \<Rightarrow> error + Path" where
  "generatePathLoop renderData fftBounds numBins binWidth negativeInfinity binNum p =
     (if binNum < numBins
      then (if binNum < length renderData
            then (let y = mapToBounds fftBounds negativeInfinity (renderData ! binNum)
                  in if \<not> isnan y \<and> \<not> isinf y
                     then (case binXOf fftBounds binWidth binNum of
                             None \<Rightarrow> Inl InvalidConversion
                           | Some binX \<Rightarrow>
                               generatePathLoop renderData fftBounds numBins binWidth negativeInfinity
                                 (binNum + 2) (p @ [LineTo (Fin (of_int binX)) y]))
                     else generatePathLoop renderData fftBounds numBins binWidth negativeInfinity
                            (binNum + 2) p)
            else Inl IndexOutOfRange)
      else Inr p)"
  by pat_completeness auto
termination
  by (relation "measure (\<lambda>(renderData, fftBounds, numBins, binWidth, negativeInfinity, binNum, p).
        numBins - binNum)") auto

declare generatePathLoop.simps [simp del]

definition buildPath ::
  "fval list \<Rightarrow> fval Rectangle \<Rightarrow> nat \<Rightarrow> fval \<Rightarrow> fval \<Rightarrow> error + Path" where
  "buildPath renderData fftBounds fftSize binWidth negativeInfinity =
     (let numBins = fftSize div 2
      in if 0 < length renderData
         then (let y = mapToBounds fftBounds negativeInfinity (renderData ! 0)
               in generatePathLoop renderData fftBounds numBins binWidth negativeInfinity 1
                    [StartNewSubPath (Fin 0) y])
         else Inl IndexOutOfRange)"

definition generatePath ::
  "fval list \<Rightarrow> fval Rectangle \<Rightarrow> nat \<Rightarrow> fval \<Rightarrow> fval \<Rightarrow> AnalyserPathGenerator
     \<Rightarrow> error + AnalyserPathGenerator" where
  "generatePath renderData fftBounds fftSize binWidth negativeInfinity pg =
     (case buildPath renderData fftBounds fftSize binWidth negativeInfinity of
        Inl e \<Rightarrow> Inl e
      | Inr p \<Rightarrow> Inr (pg\<lparr>pathFifo := snd (push p (pathFifo pg))\<rparr>))"

record PathProducer =
  monoBuffer :: "fval list"
  leftChannelFFTDataGenerator :: FFTDataGenerator
  pathProducer :: AnalyserPathGenerator
  leftChannelFFTPath :: Path

text \<open>
  The first loop of \<^verbatim>\<open>PathProducer::process\<close>: every complete buffer of the sample queue
  is shifted into \<open>monoBuffer\<close> (the two \<^verbatim>\<open>FloatVectorOperations::copy\<close>; a buffer longer
  than \<open>monoBuffer\<close> makes the copy length negative, an error) and a spectrum frame is
  produced from \<open>monoBuffer\<close>.
\<close>

function sampleLoop ::
  "Ext \<Rightarrow> SingleChannelSampleFifo \<times> PathProducer \<Rightarrow> error + (SingleChannelSampleFifo \<times> PathProducer)" where
  "sampleLoop J (fifo, pp) =
     (if getNumCompleteBuffersAvailable fifo > 0
      then (case getAudioBuffer fifo of
              None \<Rightarrow> sampleLoop J (fifo, pp)
            | Some (tempIncomingBuffer, fifo') \<Rightarrow>
                (let size' = length tempIncomingBuffer
                 in if length (monoBuffer pp) < size' then Inl IndexOutOfRange
                    else
                      (let mono = drop size' (monoBuffer pp) @ tempIncomingBuffer
                       in case produceFFTDataForRendering J mono (Fin (- 48))
                                 (leftChannelFFTDataGenerator pp) of
                            Inl e \<Rightarrow> Inl e
                          | Inr g \<Rightarrow>
                              sampleLoop J
                                (fifo', pp\<lparr>monoBuffer := mono, leftChannelFFTDataGenerator := g\<rparr>))))
      else Inr (fifo, pp))"
  by pat_completeness auto
termination
  by (relation "measure (\<lambda>(J, fifo, pp). length (fifoBuffers (audioBufferFifo fifo)))")
     (auto simp: getNumCompleteBuffersAvailable_def getNumAvailableForReading_def
        getAudioBuffer_def pull_def split: list.splits)

declare sampleLoop.simps [simp del]

text \<open>The second loop: a path is generated from every frame of the frame queue.\<close>

function pathLoop ::
  "fval Rectangle \<Rightarrow> nat \<Rightarrow> fval \<Rightarrow> PathProducer \<Rightarrow> error + PathProducer" where
  "pathLoop fftBounds fftSize binWidth pp =
     (if getNumAvailableFFTDataBlocks (leftChannelFFTDataGenerator pp) > 0
      then (case getFFTData (leftChannelFFTDataGenerator pp) of
              None \<Rightarrow> pathLoop fftBounds fftSize binWidth pp
            | Some (fftData', g) \<Rightarrow>
                (case generatePath fftData' fftBounds fftSize binWidth (Fin (- 48)) (pathProducer pp) of
                   Inl e \<Rightarrow> Inl e
                 | Inr pg \<Rightarrow>
                     pathLoop fftBounds fftSize binWidth
                       (pp\<lparr>leftChannelFFTDataGenerator := g, pathProducer := pg\<rparr>)))
      else Inr pp)"
  by pat_completeness auto
termination
  by (relation "measure (\<lambda>(fftBounds, fftSize, binWidth, pp).
        length (fifoBuffers (fftDataFifo (leftChannelFFTDataGenerator pp))))")
     (auto simp: getNumAvailableFFTDataBlocks_def getNumAvailableForReading_def
        getFFTData_def pull_def split: list.splits)

declare pathLoop.simps [simp del]

text \<open>The third loop: every path of the path queue is pulled into \<open>leftChannelFFTPath\<close>.\<close>

function drainLoop :: "PathProducer \<Rightarrow> PathProducer" where
  "drainLoop pp =
     (if getNumPathsAvailable (pathProducer pp) \<noteq> 0
      then (case getPath (pathProducer pp) of
              None \<Rightarrow> drainLoop pp
            | Some (p, pg) \<Rightarrow> drainLoop (pp\<lparr>pathProducer := pg, leftChannelFFTPath := p\<rparr>))
      else pp)"
  by pat_completeness auto
termination
  by (relation "measure (\<lambda>pp. length (fifoBuffers (pathFifo (pathProducer pp))))")
     (auto simp: getNumPathsAvailable_def getNumAvailableForReading_def
        getPath_def pull_def split: list.splits)

declare drainLoop.simps [simp del]

definition process ::
  "Ext \<Rightarrow> fval Rectangle \<Rightarrow> real \<Rightarrow> SingleChannelSampleFifo \<times> PathProducer
     \<Rightarrow> error + (SingleChannelSampleFifo \<times> PathProducer)" where
  "process J fftBounds sampleRate' s =
     (case sampleLoop J s of
        Inl e \<Rightarrow> Inl e
      | Inr (fifo, pp) \<Rightarrow>
          (let fftSize = getFFTSize (leftChannelFFTDataGenerator pp);
               binWidth = fdiv (Fin sampleRate') (Fin (real fftSize))
           in case pathLoop fftBounds fftSize binWidth pp of
                Inl e \<Rightarrow> Inl e
              | Inr pp' \<Rightarrow> Inr (fifo, drainLoop pp')))"

section \<open>The editor: response curve component\<close>

text \<open>
  The state of \<^verbatim>\<open>ResponseCurveComponent\<close>.  \<open>localBounds\<close> is what
  \<^verbatim>\<open>getLocalBounds()\<close> returns; \<open>repaintPending\<close> is the mark \<^verbatim>\<open>repaint()\<close> sets on a
  component, after which the message loop calls \<^verbatim>\<open>paint\<close>.
\<close>

record ResponseCurveComponent =
  parametersChanged :: bool
  monoChain :: MonoChain
  leftPathProducer :: PathProducer
  rightPathProducer :: PathProducer
  shouldShowFFTAnalysis :: bool
  localBounds :: "int Rectangle"
  repaintPending :: bool

definition parameterValueChanged :: "ResponseCurveComponent \<Rightarrow> ResponseCurveComponent" where
  "parameterValueChanged c = c\<lparr>parametersChanged := True\<rparr>"

definition toggleAnalysisEnablement :: "bool \<Rightarrow> ResponseCurveComponent \<Rightarrow> ResponseCurveComponent" where
  "toggleAnalysisEnablement enabled c = c\<lparr>shouldShowFFTAnalysis := enabled\<rparr>"

definition getRenderArea :: "ResponseCurveComponent \<Rightarrow> int Rectangle" where
  "getRenderArea c =
     removeFromRight 20 (removeFromLeft 20 (removeFromBottom 2 (removeFromTop 12 (localBounds c))))"

definition getAnalysisArea :: "ResponseCurveComponent \<Rightarrow> int Rectangle" where
  "getAnalysisArea c = removeFromBottom 4 (removeFromTop 4 (getRenderArea c))"

text \<open>
  \<^verbatim>\<open>juce::Atomic<bool>::compareAndSetBool (newValue, valueToCompare)\<close> on the value \<open>v\<close>:
  one read-modify-write; the result says whether the value was replaced.
\<close>

definition compareAndSetBool :: "bool \<Rightarrow> bool \<Rightarrow> bool \<Rightarrow> bool \<times> bool" where
  "compareAndSetBool newValue valueToCompare v =
     (if v = valueToCompare then (True, newValue) else (False, v))"

definition updateChain ::
  "Ext \<Rightarrow> ZooEQAudioProcessor \<Rightarrow> ResponseCurveComponent \<Rightarrow> ResponseCurveComponent" where
  "updateChain J p c =
     (let chainSettings = getChainSettings (apvts p);
          m1 = (monoChain c)\<lparr> bypassedLowCut := lowCutBypassed chainSettings,
                               bypassedPeak := peakBypassed chainSettings,
                               bypassedHighCut := highCutBypassed chainSettings \<rparr>;
          peakCoefficients = makePeakFilter J chainSettings (sampleRate p);
          m2 = m1\<lparr>peak := updateCoefficients (peak m1) peakCoefficients\<rparr>;
          lowCutCoefficients = makeLowCutFilter J chainSettings (sampleRate p);
          m3 = m2\<lparr>lowCut := updateCutFilter (lowCut m2) lowCutCoefficients (lowCutSlope chainSettings)\<rparr>;
          highCutCoefficients = makeHighCutFilter J chainSettings (sampleRate p);
          m4 = m3\<lparr>highCut := updateCutFilter (highCut m3) highCutCoefficients (highCutSlope chainSettings)\<rparr>
      in c\<lparr>monoChain := m4\<rparr>)"

definition timerCallback ::
  "Ext \<Rightarrow> ZooEQAudioProcessor \<times> ResponseCurveComponent
     \<Rightarrow> error + (ZooEQAudioProcessor \<times> ResponseCurveComponent)" where
  "timerCallback J s =
     (case s of (p, c) \<Rightarrow>
        (case (if shouldShowFFTAnalysis c
               then (let fftBounds = toFloat (getAnalysisArea c);
                         sampleRate' = sampleRate p
                     in case process J fftBounds sampleRate' (leftChannelFifo p, leftPathProducer c) of
                          Inl e \<Rightarrow> Inl e
                        | Inr (lf, lpp) \<Rightarrow>
                            (case process J fftBounds sampleRate' (rightChannelFifo p, rightPathProducer c) of
                               Inl e \<Rightarrow> Inl e
                             | Inr (rf, rpp) \<Rightarrow>
                                 Inr (p\<lparr>leftChannelFifo := lf, rightChannelFifo := rf\<rparr>,
                                      c\<lparr>leftPathProducer := lpp, rightPathProducer := rpp\<rparr>)))
               else Inr (p, c)) of
           Inl e \<Rightarrow> Inl e
         | Inr (p1, c1) \<Rightarrow>
             (let (swapped, flag) = compareAndSetBool False True (parametersChanged c1);
                  c2 = c1\<lparr>parametersChanged := flag\<rparr>;
                  c3 = (if swapped then updateChain J p1 c2 else c2)
              in Inr (p1, c3\<lparr>repaintPending := True\<rparr>))))"

text \<open>
  \<^verbatim>\<open>paint\<close>: the magnitude of one pixel column (the body of the loop over \<open>i\<close>), the loop
  that fills \<open>mags\<close>, the loop that draws the curve, and the two analyser paths.
\<close>

definition cutMagnitude :: "Ext \<Rightarrow> CutFilter \<Rightarrow> fval \<Rightarrow> real \<Rightarrow> fval \<Rightarrow> fval" where
  "cutMagnitude J cutf freq sampleRate' mag =
     (let m0 = (if \<not> cutBypassed0 cutf
                then fmul mag (getMagnitudeForFrequency J (coefficients (cut0 cutf)) freq sampleRate')
                else mag);
          m1 = (if \<not> cutBypassed1 cutf
                then fmul m0 (getMagnitudeForFrequency J (coefficients (cut1 cutf)) freq sampleRate')
                else m0);
          m2 = (if \<not> cutBypassed2 cutf
                then fmul m1 (getMagnitudeForFrequency J (coefficients (cut2 cutf)) freq sampleRate')
                else m1);
          m3 = (if \<not> cutBypassed3 cutf
                then fmul m2 (getMagnitudeForFrequency J (coefficients (cut3 cutf)) freq sampleRate')
                else m2)
      in m3)"

definition chainMagnitude :: "Ext \<Rightarrow> MonoChain \<Rightarrow> real \<Rightarrow> fval \<Rightarrow> fval" where
  "chainMagnitude J chain sampleRate' freq =
     (let mag = Fin 1;
          magPeak = (if \<not> bypassedPeak chain
                     then fmul mag (getMagnitudeForFrequency J (coefficients (peak chain)) freq sampleRate')
                     else mag);
          magLow = (if \<not> bypassedLowCut chain
                    then cutMagnitude J (lowCut chain) freq sampleRate' magPeak
                    else magPeak);
          magHigh = (if \<not> bypassedHighCut chain
                     then cutMagnitude J (highCut chain) freq sampleRate' magLow
                     else magLow)
      in magHigh)"

definition columnFrequency :: "nat \<Rightarrow> nat \<Rightarrow> fval" where
  "columnFrequency w i = mapToLog10 (fdiv (Fin (real i)) (Fin (real w))) (Fin 20) (Fin 20000)"

function magsLoop :: "Ext \<Rightarrow> MonoChain \<Rightarrow> real \<Rightarrow> nat \<Rightarrow> nat \<Rightarrow> fval list \<Rightarrow> fval list" where
  "magsLoop J chain sampleRate' w i mags =
     (if i < w
      then magsLoop J chain sampleRate' w (i + 1)
             (mags[i := gainToDecibels (chainMagnitude J chain sampleRate' (columnFrequency w i))
                          defaultMinusInfinitydB])
      else mags)"
  by pat_completeness auto
termination
  by (relation "measure (\<lambda>(J, chain, sampleRate', w, i, mags). w - i)") auto

declare magsLoop.simps [simp del]

definition mapToArea :: "int Rectangle \<Rightarrow> fval \<Rightarrow> fval" where
  "mapToArea responseArea input =
     jmap input (Fin (- 24)) (Fin 24)
       (Fin (of_int (getBottom responseArea))) (Fin (of_int (rectY responseArea)))"

function curveLoop :: "int Rectangle \<Rightarrow> fval list \<Rightarrow> nat \<Rightarrow> Path \<Rightarrow> Path" where
  "curveLoop responseArea mags i responseCurve =
     (if i < length mags
      then curveLoop responseArea mags (i + 1)
             (responseCurve @
                [LineTo (Fin (of_int (rectX responseArea + int i))) (mapToArea responseArea (mags ! i))])
      else responseCurve)"
  by pat_completeness auto
termination
  by (relation "measure (\<lambda>(responseArea, mags, i, responseCurve). length mags - i)") auto

declare curveLoop.simps [simp del]

record Painted =
  responseCurve :: Path
  fftPaths :: "(Path \<times> Path) option"

definition paint :: "Ext \<Rightarrow> ZooEQAudioProcessor \<Rightarrow> ResponseCurveComponent \<Rightarrow> error + Painted" where
  "paint J p c =
     (let responseArea = getAnalysisArea c;
          w = rectW responseArea
      in if w \<le> 0 then Inl IndexOutOfRange
         else
           (let mags = magsLoop J (monoChain c) (sampleRate p) (nat w) 0 (replicate (nat w) (Fin 0));
                curve = curveLoop responseArea mags 1
                          [StartNewSubPath (Fin (of_int (rectX responseArea)))
                             (mapToArea responseArea (mags ! 0))];
                dx = Fin (of_int (rectX responseArea));
                dy = Fin (of_int (rectY responseArea))
            in Inr \<lparr> responseCurve = curve,
                     fftPaths =
                       (if shouldShowFFTAnalysis c
                        then Some (map (translateElement dx dy) (leftChannelFFTPath (leftPathProducer c)),
                                   map (translateElement dx dy) (leftChannelFFTPath (rightPathProducer c)))
                        else None) \<rparr>))"

section \<open>What a chain holds\<close>

text \<open>
  Two views of a chain for the statements below: the delay registers of its nine filters,
  and its design, that is the coefficients of the nine filters with all the bypass flags.
\<close>

definition cutStates :: "CutFilter \<Rightarrow> fval list list" where
  "cutStates c = [filterState (cut0 c), filterState (cut1 c), filterState (cut2 c), filterState (cut3 c)]"

definition chainStates :: "MonoChain \<Rightarrow> fval list list" where
  "chainStates m = cutStates (lowCut m) @ [filterState (peak m)] @ cutStates (highCut m)"

definition cutDesign :: "CutFilter \<Rightarrow> Coefficients list \<times> bool list" where
  "cutDesign c =
     ([coefficients (cut0 c), coefficients (cut1 c), coefficients (cut2 c), coefficients (cut3 c)],
      [cutBypassed0 c, cutBypassed1 c, cutBypassed2 c, cutBypassed3 c])"

definition chainDesign ::
  "MonoChain \<Rightarrow> (Coefficients list \<times> bool list) \<times> Coefficients \<times> (Coefficients list \<times> bool list) \<times> bool list" where
  "chainDesign m =
     (cutDesign (lowCut m), coefficients (peak m), cutDesign (highCut m),
      [bypassedLowCut m, bypassedPeak m, bypassedHighCut m])"

text \<open>The four sections of a cut band in cascade order, each with its bypass flag.\<close>

definition cutSectionsOf :: "CutFilter \<Rightarrow> (Coefficients \<times> bool) list" where
  "cutSectionsOf c =
     [(coefficients (cut0 c), cutBypassed0 c), (coefficients (cut1 c), cutBypassed1 c),
      (coefficients (cut2 c), cutBypassed2 c), (coefficients (cut3 c), cutBypassed3 c)]"

section \<open>The cut bands in the words of the specification\<close>

text \<open>
  Spec 3 and 4.2: the design of a cut band delivers up to four coefficient sets; the order
  (slope + 1) says how many of the four cascaded sections are active; an active section
  holds its coefficient set of the design, the sections beyond the order are bypassed.
  A bypassed section is given no coefficient set, so it still holds the one it held
  \<^verbatim>\<open>before\<close>.
\<close>

definition spec_cutSections ::
  "Coefficients list \<Rightarrow> int \<Rightarrow> CutFilter \<Rightarrow> (Coefficients \<times> bool) list" where
  "spec_cutSections design slope before =
     map (\<lambda>k. if int k \<le> slope \<and> k < length design then (design ! k, False)
               else (fst (cutSectionsOf before ! k), True))
       [0, 1, 2, 3]"

section \<open>The response curve in the words of the specification\<close>

text \<open>
  The stages of a chain are the peak filter and the four sections of each cut band, each
  with the flag that says whether it is bypassed (a section of a bypassed band is
  bypassed).  A bypassed stage has the gain one, another stage the magnitude response of
  its coefficients; the magnitude of the chain at a frequency is the product of the gains
  of its stages.  Column \<open>i\<close> of \<open>w\<close> has the frequency
  \<^verbatim>\<open>mapToLog10 (i / w, 20, 20000)\<close>; its point is at the magnitude in decibels, mapped from
  -24 .. 24 onto bottom .. top of the area.
\<close>

definition spec_cutStages :: "bool \<Rightarrow> CutFilter \<Rightarrow> (bool \<times> Coefficients) list" where
  "spec_cutStages bandBypassed c =
     [(bandBypassed \<or> cutBypassed0 c, coefficients (cut0 c)),
      (bandBypassed \<or> cutBypassed1 c, coefficients (cut1 c)),
      (bandBypassed \<or> cutBypassed2 c, coefficients (cut2 c)),
      (bandBypassed \<or> cutBypassed3 c, coefficients (cut3 c))]"

definition spec_stages :: "MonoChain \<Rightarrow> (bool \<times> Coefficients) list" where
  "spec_stages m =
     (bypassedPeak m, coefficients (peak m))
       # spec_cutStages (bypassedLowCut m) (lowCut m)
       @ spec_cutStages (bypassedHighCut m) (highCut m)"

definition spec_stageGain :: "Ext \<Rightarrow> real \<Rightarrow> fval \<Rightarrow> bool \<times> Coefficients \<Rightarrow> fval" where
  "spec_stageGain J sampleRate' freq stage =
     (if fst stage then Fin 1 else getMagnitudeForFrequency J (snd stage) freq sampleRate')"

definition spec_magnitude :: "Ext \<Rightarrow> MonoChain \<Rightarrow> real \<Rightarrow> fval \<Rightarrow> fval" where
  "spec_magnitude J m sampleRate' freq =
     foldl fmul (Fin 1) (map (spec_stageGain J sampleRate' freq) (spec_stages m))"

definition spec_columnY :: "Ext \<Rightarrow> MonoChain \<Rightarrow> real \<Rightarrow> int Rectangle \<Rightarrow> nat \<Rightarrow> fval" where
  "spec_columnY J m sampleRate' area i =
     (let w = nat (rectW area);
          freq = mapToLog10 (fdiv (Fin (real i)) (Fin (real w))) (Fin 20) (Fin 20000);
          dB = gainToDecibels (spec_magnitude J m sampleRate' freq) defaultMinusInfinitydB
      in jmap dB (Fin (- 24)) (Fin 24)
           (Fin (of_int (rectY area + rectH area))) (Fin (of_int (rectY area))))"

definition spec_responseCurve :: "Ext \<Rightarrow> MonoChain \<Rightarrow> real \<Rightarrow> int Rectangle \<Rightarrow> Path" where
  "spec_responseCurve J m sampleRate' area =
     map (\<lambda>i. (if i = 0 then StartNewSubPath else LineTo)
                 (Fin (of_int (rectX area + int i))) (spec_columnY J m sampleRate' area i))
       [0..<nat (rectW area)]"

section \<open>The analyser path in the words of the specification\<close>

text \<open>
  The x coordinate of bin \<open>k\<close> of width \<open>bw\<close> on an axis of \<open>w\<close> pixels is
  \<open>w * log10 (f / 20) / log10 (20000 / 20)\<close> for \<open>f = k * bw\<close>, rounded down.  The bins
  visited are 1, 3, 5 and so on below the number of bins.  A visited bin whose mapped
  value is NaN or infinite adds nothing to the path; every other visited bin adds a line
  to its point.
\<close>

definition spec_binX :: "real \<Rightarrow> real \<Rightarrow> nat \<Rightarrow> int" where
  "spec_binX w bw k = \<lfloor>w * (log 10 (real k * bw / 20) / log 10 (20000 / 20))\<rfloor>"

definition spec_visitedBins :: "nat \<Rightarrow> nat list" where
  "spec_visitedBins numBins = map (\<lambda>j. 2 * j + 1) [0..<numBins div 2]"

definition spec_segment ::
  "fval list \<Rightarrow> fval Rectangle \<Rightarrow> real \<Rightarrow> real \<Rightarrow> fval \<Rightarrow> nat \<Rightarrow> Path" where
  "spec_segment renderData fftBounds w bw negativeInfinity k =
     (let y = jmap (renderData ! k) negativeInfinity (Fin 0) (rectH fftBounds) (rectY fftBounds)
      in if isnan y \<or> isinf y then []
         else [LineTo (Fin (of_int (spec_binX w bw k))) y])"

definition spec_path ::
  "fval list \<Rightarrow> fval Rectangle \<Rightarrow> nat \<Rightarrow> real \<Rightarrow> real \<Rightarrow> fval \<Rightarrow> Path" where
  "spec_path renderData fftBounds fftSize w bw negativeInfinity =
     StartNewSubPath (Fin 0)
       (jmap (renderData ! 0) negativeInfinity (Fin 0) (rectH fftBounds) (rectY fftBounds))
     # concat (map (spec_segment renderData fftBounds w bw negativeInfinity)
                 (spec_visitedBins (fftSize div 2)))"

section \<open>What the queues of a path producer hold\<close>

text \<open>
  The paths waiting in the path queue, the frames waiting in the frame queue, and the
  capacity of the path queue.
\<close>

definition queuedPaths :: "PathProducer \<Rightarrow> Path list" where
  "queuedPaths pp = fifoBuffers (pathFifo (pathProducer pp))"

definition queuedFrames :: "PathProducer \<Rightarrow> fval list list" where
  "queuedFrames pp = fifoBuffers (fftDataFifo (leftChannelFFTDataGenerator pp))"

definition pathCapacity :: "PathProducer \<Rightarrow> nat" where
  "pathCapacity pp = fifoCapacity (pathFifo (pathProducer pp))"

section \<open>Example data\<close>

text \<open>
  Concrete collaborators and states on which the theorems below are instantiated.  The
  parameter values are the defaults of \<^verbatim>\<open>createParameterLayout\<close>.
\<close>

definition defaultParameters :: APVTS where
  "defaultParameters name =
     (if name = ''LowCut Freq'' then 20
      else if name = ''HighCut Freq'' then 20000
      else if name = ''Peak Freq'' then 750
      else if name = ''Peak Gain'' then 0
      else if name = ''Peak Quality'' then 1
      else if name = ''Analyser Enable'' then 1
      else 0)"

definition exampleExt :: Ext where
  "exampleExt =
     \<lparr> iirMakePeakFilter = (\<lambda>sr f q g. [g, Fin f, Fin q]),
       makeLowCutFilter = (\<lambda>cs sr. replicate (nat (lowCutSlope cs + 1)) [Fin (lowCutFreq cs)]),
       makeHighCutFilter = (\<lambda>cs sr. replicate (nat (highCutSlope cs + 1)) [Fin (highCutFreq cs)]),
       iirProcess = (\<lambda>c st xs. (map (\<lambda>x. fmul (case c of [] \<Rightarrow> Fin 1 | g # _ \<Rightarrow> g) x) xs, xs)),
       getMagnitudeForFrequency = (\<lambda>c f sr. (case c of [] \<Rightarrow> Fin 1 | g # _ \<Rightarrow> g)),
       multiplyWithWindowingTable = (\<lambda>n d. d),
       performFrequencyOnlyForwardTransform = (\<lambda>n d. d),
       readFromData = (\<lambda>bytes. (case bytes of [] \<Rightarrow> None | b # _ \<Rightarrow> Some (ValueTree ''Parameters'' [(''Peak Gain'', real b)] []))),
       replaceState = (\<lambda>t a. (case t of ValueTree _ props _ \<Rightarrow> (\<lambda>name. (case map_of props name of None \<Rightarrow> a name | Some v \<Rightarrow> v)))) \<rparr>"

definition exampleFilter :: Filter where
  "exampleFilter = \<lparr> coefficients = [Fin 1], filterState = [Fin 3] \<rparr>"

definition exampleCutFilter :: CutFilter where
  "exampleCutFilter =
     \<lparr> cut0 = exampleFilter, cut1 = exampleFilter, cut2 = exampleFilter, cut3 = exampleFilter,
       cutBypassed0 = False, cutBypassed1 = True, cutBypassed2 = True, cutBypassed3 = True \<rparr>"

definition exampleChain :: MonoChain where
  "exampleChain =
     \<lparr> lowCut = exampleCutFilter, peak = exampleFilter, highCut = exampleCutFilter,
       bypassedLowCut = False, bypassedPeak = False, bypassedHighCut = False \<rparr>"

definition exampleProcessor :: "nat \<Rightarrow> ZooEQAudioProcessor" where
  "exampleProcessor channels =
     \<lparr> apvts = defaultParameters, sampleRate = 48000,
       totalNumInputChannels = channels, totalNumOutputChannels = channels,
       leftChain = exampleChain, rightChain = exampleChain,
       leftChannelFifo = \<lparr> channelToUse = 0, audioBufferFifo = \<lparr> fifoCapacity = 2, fifoBuffers = [] \<rparr> \<rparr>,
       rightChannelFifo = \<lparr> channelToUse = 1, audioBufferFifo = \<lparr> fifoCapacity = 2, fifoBuffers = [] \<rparr> \<rparr> \<rparr>"

definition exampleGenerator :: "fval list list \<Rightarrow> FFTDataGenerator" where
  "exampleGenerator frames =
     \<lparr> fftOrder = 2, fftData = replicate 8 (Fin 0),
       fftDataFifo = \<lparr> fifoCapacity = 2, fifoBuffers = frames \<rparr> \<rparr>"

definition examplePathProducer :: "fval list list \<Rightarrow> Path list \<Rightarrow> PathProducer" where
  "examplePathProducer frames paths =
     \<lparr> monoBuffer = replicate 4 (Fin 0),
       leftChannelFFTDataGenerator = exampleGenerator frames,
       pathProducer = \<lparr> pathFifo = \<lparr> fifoCapacity = 2, fifoBuffers = paths \<rparr> \<rparr>,
       leftChannelFFTPath = [] \<rparr>"

definition exampleComponent :: "bool \<Rightarrow> bool \<Rightarrow> ResponseCurveComponent" where
  "exampleComponent changed analysis =
     \<lparr> parametersChanged = changed, monoChain = exampleChain,
       leftPathProducer = examplePathProducer [] [],
       rightPathProducer = examplePathProducer [] [],
       shouldShowFFTAnalysis = analysis,
       localBounds = \<lparr> rectX = 0, rectY = 0, rectW = 43, rectH = 30 \<rparr>,
       repaintPending = False \<rparr>"

definition exampleBounds :: "fval Rectangle" where
  "exampleBounds = \<lparr> rectX = Fin 0, rectY = Fin 0, rectW = Fin 100, rectH = Fin 100 \<rparr>"

definition exampleFrame :: "fval list" where
  "exampleFrame = [Fin 0, Fin (- 24), Fin 0, NaN]"

definition examplePath :: Path where
  "examplePath =
     [StartNewSubPath (Fin 0) (Fin 0),
      LineTo (Fin (of_int \<lfloor>100 * (log 10 (real 1 * 10 / 20) / log 10 (20000 / 20))\<rfloor>)) (Fin 50)]"

definition exampleSampleFifo :: "fval list list \<Rightarrow> SingleChannelSampleFifo" where
  "exampleSampleFifo blocks =
     \<lparr> channelToUse = 0, audioBufferFifo = \<lparr> fifoCapacity = 2, fifoBuffers = blocks \<rparr> \<rparr>"

text \<open>
  A processor whose parameter store differs from the defaults in every band: low cut at
  100 Hz of order 2, peak at 1 kHz with 20 dB and quality 2, high cut at 5 kHz of order 1,
  the high-cut band bypassed.
\<close>

definition tunedParameters :: APVTS where
  "tunedParameters name =
     (if name = ''LowCut Freq'' then 100
      else if name = ''HighCut Freq'' then 5000
      else if name = ''Peak Freq'' then 1000
      else if name = ''Peak Gain'' then 20
      else if name = ''Peak Quality'' then 2
      else if name = ''LowCut Slope'' then 1
      else if name = ''HighCut Bypassed'' then 1
      else if name = ''Analyser Enable'' then 1
      else 0)"

definition tunedProcessor :: ZooEQAudioProcessor where
  "tunedProcessor = (exampleProcessor 2)\<lparr>apvts := tunedParameters\<rparr>"

section \<open>Properties\<close>

subsection \<open>The channels of the block\<close>

lemma clearChannels_result:
  "clearChannels i n buffer = Inl e \<Longrightarrow> \<exists>c. e = ChannelOutOfRange c"
  by (induction i n buffer rule: clearChannels.induct)
     (subst (asm) clearChannels.simps, auto split: if_splits)

lemma clearChannels_length:
  "clearChannels i n buffer = Inr b \<Longrightarrow> length b = length buffer"
  by (induction i n buffer rule: clearChannels.induct)
     (subst (asm) clearChannels.simps, auto split: if_splits)

text \<open>
  C9: \<^verbatim>\<open>isBusesLayoutSupported\<close> accepts the layout with a mono main input and a mono main
  output, whose buffers have one channel; \<^verbatim>\<open>processBlock\<close> reads channel 0 and channel 1
  whatever the buffer holds, so on every buffer with fewer than two channels it runs into a
  channel that is not there, and on the one-channel buffer of the mono layout that channel
  is channel 1.
\<close>

theorem processBlock_needs_two_channels:
  "isBusesLayoutSupported isMidiEffect isSynth
     \<lparr>mainInputChannelSet = mono, mainOutputChannelSet = mono\<rparr>
   \<and> channelSetSize mono < 2
   \<and> (length buffer < 2 \<longrightarrow> (\<exists>c. processBlock J p buffer = Inl (ChannelOutOfRange c)))
   \<and> (totalNumInputChannels p = 1 \<and> totalNumOutputChannels p = 1 \<and> length buffer = 1
        \<longrightarrow> processBlock J p buffer = Inl (ChannelOutOfRange 1))"
proof -
  have a: "isBusesLayoutSupported isMidiEffect isSynth
     \<lparr>mainInputChannelSet = mono, mainOutputChannelSet = mono\<rparr>"
    by (simp add: isBusesLayoutSupported_def)
  have b: "\<exists>c. processBlock J p buffer = Inl (ChannelOutOfRange c)" if "length buffer < 2"
  proof (cases "clearChannels (totalNumInputChannels p) (totalNumOutputChannels p) buffer")
    case (Inl e)
    then show ?thesis using clearChannels_result[OF Inl]
      by (auto simp: processBlock_def)
  next
    case (Inr b1)
    have "length b1 < 2" using clearChannels_length[OF Inr] that by simp
    then show ?thesis using Inr
      by (auto simp: processBlock_def getSingleChannelBlock_def Let_def)
  qed
  have c: "processBlock J p buffer = Inl (ChannelOutOfRange 1)"
    if "totalNumInputChannels p = 1" "totalNumOutputChannels p = 1" "length buffer = 1"
    using that by (simp add: processBlock_def getSingleChannelBlock_def Let_def clearChannels.simps)
  show ?thesis using a b c by simp
qed

theorem processBlock_needs_two_channels_witness:
  "length [[Fin 0, Fin 0]] < 2
   \<and> totalNumInputChannels (exampleProcessor 1) = 1
   \<and> totalNumOutputChannels (exampleProcessor 1) = 1
   \<and> processBlock exampleExt (exampleProcessor 1) [[Fin 0, Fin 0]] = Inl (ChannelOutOfRange 1)"
  using processBlock_needs_two_channels [of False False "[[Fin 0, Fin 0]]" exampleExt "exampleProcessor 1"]
  by (simp add: exampleProcessor_def)

subsection \<open>Coefficient updates and delay registers\<close>

lemma updateCutFilter_states: "cutStates (updateCutFilter c cs slope) = cutStates c"
  by (simp add: cutStates_def updateCutFilter_def updateCutSection_def updateCoefficients_def)

lemma updateLowCutFilters_states:
  "chainStates (leftChain (updateLowCutFilters J cs p)) = chainStates (leftChain p)"
  "chainStates (rightChain (updateLowCutFilters J cs p)) = chainStates (rightChain p)"
  by (simp_all add: updateLowCutFilters_def chainStates_def Let_def updateCutFilter_states)

lemma updatePeakFilter_states:
  "chainStates (leftChain (updatePeakFilter J cs p)) = chainStates (leftChain p)"
  "chainStates (rightChain (updatePeakFilter J cs p)) = chainStates (rightChain p)"
  by (simp_all add: updatePeakFilter_def chainStates_def Let_def updateCoefficients_def)

lemma updateHighCutFilter_states:
  "chainStates (leftChain (updateHighCutFilter J cs p)) = chainStates (leftChain p)"
  "chainStates (rightChain (updateHighCutFilter J cs p)) = chainStates (rightChain p)"
  by (simp_all add: updateHighCutFilter_def chainStates_def Let_def updateCutFilter_states)

text \<open>The whole update of a block, \<^verbatim>\<open>updateFilters\<close>, changes no delay register either.\<close>

lemma updateFilters_states:
  "chainStates (leftChain (updateFilters J p)) = chainStates (leftChain p)"
  "chainStates (rightChain (updateFilters J p)) = chainStates (rightChain p)"
  by (simp_all add: updateFilters_def Let_def updateHighCutFilter_states
        updatePeakFilter_states updateLowCutFilters_states)

lemma processFilter_coefficients:
  "coefficients (snd (processFilter J f xs)) = coefficients f"
  by (simp add: processFilter_def split_def Let_def)

lemma processCutFilter_design:
  "cutDesign (snd (processCutFilter J c xs)) = cutDesign c"
  by (simp add: processCutFilter_def cutDesign_def split_def Let_def processFilter_coefficients)

lemma processMonoChain_design:
  "chainDesign (snd (processMonoChain J m xs)) = chainDesign m"
  by (simp add: processMonoChain_def chainDesign_def split_def Let_def
        processFilter_coefficients processCutFilter_design)

lemma updateFilters_frame:
  "apvts (updateFilters J p) = apvts p"
  "sampleRate (updateFilters J p) = sampleRate p"
  "leftChannelFifo (updateFilters J p) = leftChannelFifo p"
  "rightChannelFifo (updateFilters J p) = rightChannelFifo p"
  "totalNumInputChannels (updateFilters J p) = totalNumInputChannels p"
  "totalNumOutputChannels (updateFilters J p) = totalNumOutputChannels p"
  by (simp_all add: updateFilters_def updateHighCutFilter_def updatePeakFilter_def
        updateLowCutFilters_def Let_def)

lemma updateFilters_peak:
  "coefficients (peak (leftChain (updateFilters J p))) =
     makePeakFilter J (getChainSettings (apvts p)) (sampleRate p)"
  "coefficients (peak (rightChain (updateFilters J p))) =
     makePeakFilter J (getChainSettings (apvts p)) (sampleRate p)"
  "bypassedLowCut (leftChain (updateFilters J p)) = lowCutBypassed (getChainSettings (apvts p))"
  "bypassedPeak (leftChain (updateFilters J p)) = peakBypassed (getChainSettings (apvts p))"
  "bypassedHighCut (leftChain (updateFilters J p)) = highCutBypassed (getChainSettings (apvts p))"
  "bypassedLowCut (rightChain (updateFilters J p)) = lowCutBypassed (getChainSettings (apvts p))"
  "bypassedPeak (rightChain (updateFilters J p)) = peakBypassed (getChainSettings (apvts p))"
  "bypassedHighCut (rightChain (updateFilters J p)) = highCutBypassed (getChainSettings (apvts p))"
  by (simp_all add: updateFilters_def updateHighCutFilter_def updatePeakFilter_def
        updateLowCutFilters_def Let_def updateCoefficients_def)


lemma clearChannels_total:
  "n \<le> length buffer \<Longrightarrow> \<exists>b. clearChannels i n buffer = Inr b"
proof (induction i n buffer rule: clearChannels.induct)
  case (1 i n buffer)
  show ?case
  proof (cases "i < n")
    case True
    with 1 show ?thesis by (subst clearChannels.simps) simp
  next
    case False
    then show ?thesis by (subst clearChannels.simps) simp
  qed
qed

text \<open>
  C5: \<^verbatim>\<open>updateCoefficients\<close> writes the new coefficient values and leaves the delay
  registers of the filter as they are, so the next block is processed with the new
  coefficients from the old registers; \<^verbatim>\<open>updatePeakFilter\<close> gives the peak filters of both
  chains the new coefficients and changes no delay register of any of the filters.
\<close>

theorem coefficient_swap_keeps_delay_registers:
  "filterState (updateCoefficients old replacements) = filterState old
   \<and> coefficients (updateCoefficients old replacements) = replacements
   \<and> processFilter J (updateCoefficients old replacements) samples =
       (fst (iirProcess J replacements (filterState old) samples),
        \<lparr> coefficients = replacements,
          filterState = snd (iirProcess J replacements (filterState old) samples) \<rparr>)
   \<and> chainStates (leftChain (updatePeakFilter J chainSettings p)) = chainStates (leftChain p)
   \<and> chainStates (rightChain (updatePeakFilter J chainSettings p)) = chainStates (rightChain p)
   \<and> coefficients (peak (leftChain (updatePeakFilter J chainSettings p))) =
       makePeakFilter J chainSettings (sampleRate p)
   \<and> coefficients (peak (rightChain (updatePeakFilter J chainSettings p))) =
       makePeakFilter J chainSettings (sampleRate p)"
proof -
  have "processFilter J (updateCoefficients old replacements) samples =
       (fst (iirProcess J replacements (filterState old) samples),
        \<lparr> coefficients = replacements,
          filterState = snd (iirProcess J replacements (filterState old) samples) \<rparr>)"
    by (simp add: processFilter_def updateCoefficients_def split_def Let_def)
  moreover have "coefficients (peak (leftChain (updatePeakFilter J chainSettings p))) =
       makePeakFilter J chainSettings (sampleRate p)"
    "coefficients (peak (rightChain (updatePeakFilter J chainSettings p))) =
       makePeakFilter J chainSettings (sampleRate p)"
    by (simp_all add: updatePeakFilter_def Let_def updateCoefficients_def)
  ultimately show ?thesis
    by (simp add: updatePeakFilter_states) (simp add: updateCoefficients_def)
qed

text \<open>
  C10: when the bytes do not parse into a valid tree, \<^verbatim>\<open>setStateInformation\<close> returns
  the processor as it was, parameters and chains included; when they parse into a tree, the
  parameter state is replaced by that tree and the filters are recomputed from the
  replaced state.
\<close>

theorem setStateInformation_keeps_state_on_invalid_data:
  "(readFromData J data = None \<longrightarrow> setStateInformation J data p = p)
   \<and> (\<forall>tree. readFromData J data = Some tree \<longrightarrow>
         setStateInformation J data p = updateFilters J (p\<lparr>apvts := replaceState J tree (apvts p)\<rparr>)
         \<and> apvts (setStateInformation J data p) = replaceState J tree (apvts p)
         \<and> coefficients (peak (leftChain (setStateInformation J data p))) =
             makePeakFilter J (getChainSettings (replaceState J tree (apvts p))) (sampleRate p)
         \<and> coefficients (peak (rightChain (setStateInformation J data p))) =
             makePeakFilter J (getChainSettings (replaceState J tree (apvts p))) (sampleRate p))"
proof (cases "readFromData J data")
  case None
  then show ?thesis by (simp add: setStateInformation_def)
next
  case (Some tree)
  let ?q = "p\<lparr>apvts := replaceState J tree (apvts p)\<rparr>"
  have run: "setStateInformation J data p = updateFilters J ?q"
    using Some by (simp add: setStateInformation_def)
  have a: "apvts (updateFilters J ?q) = replaceState J tree (apvts p)"
    by (simp add: updateFilters_frame)
  have pk: "coefficients (peak (leftChain (updateFilters J ?q))) =
      makePeakFilter J (getChainSettings (replaceState J tree (apvts p))) (sampleRate p)"
    "coefficients (peak (rightChain (updateFilters J ?q))) =
      makePeakFilter J (getChainSettings (replaceState J tree (apvts p))) (sampleRate p)"
    by (simp_all add: updateFilters_peak)
  show ?thesis using Some run a pk by simp
qed

lemma processBlock_effect:
  assumes "2 \<le> length buffer"
    and "totalNumOutputChannels p \<le> length buffer"
    and "channelToUse (leftChannelFifo p) < length buffer"
    and "channelToUse (rightChannelFifo p) < length buffer"
  shows "\<exists>p' buffer' cleared.
           processBlock J p buffer = Inr (p', buffer')
           \<and> clearChannels (totalNumInputChannels p) (totalNumOutputChannels p) buffer = Inr cleared
           \<and> apvts p' = apvts p
           \<and> chainDesign (leftChain p') = chainDesign (leftChain (updateFilters J p))
           \<and> chainDesign (rightChain p') = chainDesign (rightChain (updateFilters J p))
           \<and> coefficients (peak (leftChain p')) =
               makePeakFilter J (getChainSettings (apvts p)) (sampleRate p)
           \<and> coefficients (peak (rightChain p')) =
               makePeakFilter J (getChainSettings (apvts p)) (sampleRate p)
           \<and> buffer' ! 0 = fst (processMonoChain J (leftChain (updateFilters J p)) (cleared ! 0))
           \<and> buffer' ! 1 = fst (processMonoChain J (rightChain (updateFilters J p)) (cleared ! 1))
           \<and> update buffer' (leftChannelFifo p) = Inr (leftChannelFifo p')
           \<and> update buffer' (rightChannelFifo p) = Inr (rightChannelFifo p')"
proof -
  obtain cleared where c: "clearChannels (totalNumInputChannels p) (totalNumOutputChannels p) buffer = Inr cleared"
    using clearChannels_total[OF assms(2)] by blast
  have len: "length cleared = length buffer" using clearChannels_length[OF c] .
  define q where "q = updateFilters J p"
  define l where "l = processMonoChain J (leftChain q) (cleared ! 0)"
  define r where "r = processMonoChain J (rightChain q) (cleared ! 1)"
  define buffer2 where "buffer2 = cleared[0 := fst l, 1 := fst r]"
  define p2 where "p2 = q\<lparr>leftChain := snd l, rightChain := snd r\<rparr>"
  have len2: "length buffer2 = length buffer" by (simp add: buffer2_def len)
  have fl: "leftChannelFifo p2 = leftChannelFifo p" "rightChannelFifo p2 = rightChannelFifo p"
    by (simp_all add: p2_def q_def updateFilters_frame)
  obtain lf where lf: "update buffer2 (leftChannelFifo p2) = Inr lf"
    using assms(3) by (simp add: update_def fl len2)
  obtain rf where rf: "update buffer2 (rightChannelFifo p2) = Inr rf"
    using assms(4) by (simp add: update_def fl len2)
  define p' where "p' = p2\<lparr>leftChannelFifo := lf, rightChannelFifo := rf\<rparr>"
  have ne: "buffer \<noteq> []" "0 < length buffer" "Suc 0 < length buffer"
    using assms(1) by auto
  have run: "processBlock J p buffer = Inr (p', buffer2)"
    using ne c lf rf len
    unfolding p'_def p2_def buffer2_def l_def r_def q_def
    by (simp add: processBlock_def getSingleChannelBlock_def Let_def split_def)
  have d: "chainDesign (leftChain p') = chainDesign (leftChain q)"
          "chainDesign (rightChain p') = chainDesign (rightChain q)"
    by (simp_all add: p'_def p2_def l_def r_def processMonoChain_design)
  have pk: "coefficients (peak (leftChain p')) = coefficients (peak (leftChain q))"
           "coefficients (peak (rightChain p')) = coefficients (peak (rightChain q))"
    using d by (simp_all add: chainDesign_def)
  have a: "apvts p' = apvts p"
    by (simp add: p'_def p2_def q_def updateFilters_frame)
  have b: "buffer2 ! 0 = fst l" "buffer2 ! 1 = fst r"
    using ne len by (simp_all add: buffer2_def nth_list_update)
  have f: "update buffer2 (leftChannelFifo p) = Inr (leftChannelFifo p')"
    "update buffer2 (rightChannelFifo p) = Inr (rightChannelFifo p')"
    using lf rf by (simp_all add: fl p'_def)
  show ?thesis
    using run c a d pk b f
    by (simp add: q_def l_def r_def updateFilters_peak)
qed


theorem coefficient_swap_keeps_delay_registers_witness:
  "filterState (updateCoefficients exampleFilter [Fin 2]) = [Fin 3]
   \<and> coefficients (updateCoefficients exampleFilter [Fin 2]) = [Fin 2]
   \<and> chainStates (leftChain (updatePeakFilter exampleExt (getChainSettings defaultParameters)
         (exampleProcessor 2))) = replicate 9 [Fin 3]"
  using coefficient_swap_keeps_delay_registers
    [of exampleFilter "[Fin 2]" exampleExt "[]" "getChainSettings defaultParameters" "exampleProcessor 2"]
  by (simp add: exampleFilter_def exampleProcessor_def exampleChain_def exampleCutFilter_def
        chainStates_def cutStates_def numeral_eq_Suc)

theorem setStateInformation_keeps_state_on_invalid_data_witness:
  "readFromData exampleExt [] = None
   \<and> setStateInformation exampleExt [] (exampleProcessor 2) = exampleProcessor 2
   \<and> readFromData exampleExt [12] = Some (ValueTree ''Parameters'' [(''Peak Gain'', 12)] [])
   \<and> apvts (setStateInformation exampleExt [12] (exampleProcessor 2)) ''Peak Gain'' = 12"
proof -
  have r0: "readFromData exampleExt [] = None"
    by (simp add: exampleExt_def)
  have r1: "readFromData exampleExt [12] = Some (ValueTree ''Parameters'' [(''Peak Gain'', 12)] [])"
    by (simp add: exampleExt_def)
  have rs: "replaceState exampleExt (ValueTree ''Parameters'' [(''Peak Gain'', 12)] []) a ''Peak Gain'' = 12"
    for a by (simp add: exampleExt_def)
  have a: "setStateInformation exampleExt [] (exampleProcessor 2) = exampleProcessor 2"
    using setStateInformation_keeps_state_on_invalid_data [of exampleExt "[]" "exampleProcessor 2"] r0
    by blast
  have b: "apvts (setStateInformation exampleExt [12] (exampleProcessor 2)) =
      replaceState exampleExt (ValueTree ''Parameters'' [(''Peak Gain'', 12)] [])
        (apvts (exampleProcessor 2))"
    using setStateInformation_keeps_state_on_invalid_data [of exampleExt "[12]" "exampleProcessor 2"] r1
    by blast
  show ?thesis using r0 r1 a by (simp add: b rs)
qed

text \<open>
  What the three update functions leave in the cut bands: \<^verbatim>\<open>updateLowCutFilters\<close> and
  \<^verbatim>\<open>updateHighCutFilter\<close> install the design of their band section by section, and touch
  nothing of the other band.
\<close>

lemma updateCutFilter_sections:
  "cutSectionsOf (updateCutFilter c design slope) = spec_cutSections design slope c"
  by (simp add: cutSectionsOf_def spec_cutSections_def updateCutFilter_def updateCutSection_def
        cutSectionActive_def updateCoefficients_def)

lemma updateLowCutFilters_parts:
  "cutSectionsOf (lowCut (leftChain (updateLowCutFilters J cs p))) =
     spec_cutSections (makeLowCutFilter J cs (sampleRate p)) (lowCutSlope cs) (lowCut (leftChain p))"
  "cutSectionsOf (lowCut (rightChain (updateLowCutFilters J cs p))) =
     spec_cutSections (makeLowCutFilter J cs (sampleRate p)) (lowCutSlope cs) (lowCut (rightChain p))"
  "highCut (leftChain (updateLowCutFilters J cs p)) = highCut (leftChain p)"
  "highCut (rightChain (updateLowCutFilters J cs p)) = highCut (rightChain p)"
  "sampleRate (updateLowCutFilters J cs p) = sampleRate p"
  by (simp_all add: updateLowCutFilters_def Let_def updateCutFilter_sections)

lemma updatePeakFilter_parts:
  "lowCut (leftChain (updatePeakFilter J cs p)) = lowCut (leftChain p)"
  "lowCut (rightChain (updatePeakFilter J cs p)) = lowCut (rightChain p)"
  "highCut (leftChain (updatePeakFilter J cs p)) = highCut (leftChain p)"
  "highCut (rightChain (updatePeakFilter J cs p)) = highCut (rightChain p)"
  "sampleRate (updatePeakFilter J cs p) = sampleRate p"
  by (simp_all add: updatePeakFilter_def Let_def)

lemma updateHighCutFilter_parts:
  "cutSectionsOf (highCut (leftChain (updateHighCutFilter J cs p))) =
     spec_cutSections (makeHighCutFilter J cs (sampleRate p)) (highCutSlope cs) (highCut (leftChain p))"
  "cutSectionsOf (highCut (rightChain (updateHighCutFilter J cs p))) =
     spec_cutSections (makeHighCutFilter J cs (sampleRate p)) (highCutSlope cs) (highCut (rightChain p))"
  "lowCut (leftChain (updateHighCutFilter J cs p)) = lowCut (leftChain p)"
  "lowCut (rightChain (updateHighCutFilter J cs p)) = lowCut (rightChain p)"
  by (simp_all add: updateHighCutFilter_def Let_def updateCutFilter_sections)

lemma updateFilters_cut:
  "cutSectionsOf (lowCut (leftChain (updateFilters J p))) =
     spec_cutSections (makeLowCutFilter J (getChainSettings (apvts p)) (sampleRate p))
       (lowCutSlope (getChainSettings (apvts p))) (lowCut (leftChain p))"
  "cutSectionsOf (lowCut (rightChain (updateFilters J p))) =
     spec_cutSections (makeLowCutFilter J (getChainSettings (apvts p)) (sampleRate p))
       (lowCutSlope (getChainSettings (apvts p))) (lowCut (rightChain p))"
  "cutSectionsOf (highCut (leftChain (updateFilters J p))) =
     spec_cutSections (makeHighCutFilter J (getChainSettings (apvts p)) (sampleRate p))
       (highCutSlope (getChainSettings (apvts p))) (highCut (leftChain p))"
  "cutSectionsOf (highCut (rightChain (updateFilters J p))) =
     spec_cutSections (makeHighCutFilter J (getChainSettings (apvts p)) (sampleRate p))
       (highCutSlope (getChainSettings (apvts p))) (highCut (rightChain p))"
  unfolding updateFilters_def Let_def
  by (simp_all only: updateHighCutFilter_parts updatePeakFilter_parts updateLowCutFilters_parts)

lemma cutSectionsOf_design:
  "cutSectionsOf c = zip (fst (cutDesign c)) (snd (cutDesign c))"
  by (simp add: cutDesign_def cutSectionsOf_def)

lemma chainDesign_sections:
  assumes "chainDesign a = chainDesign b"
  shows "cutSectionsOf (lowCut a) = cutSectionsOf (lowCut b)"
    and "cutSectionsOf (highCut a) = cutSectionsOf (highCut b)"
proof -
  have "cutDesign (lowCut a) = cutDesign (lowCut b)" "cutDesign (highCut a) = cutDesign (highCut b)"
    using assms unfolding chainDesign_def by blast+
  then show "cutSectionsOf (lowCut a) = cutSectionsOf (lowCut b)"
    and "cutSectionsOf (highCut a) = cutSectionsOf (highCut b)"
    by (simp_all only: cutSectionsOf_design)
qed

lemma tunedSettings:
  "getChainSettings (apvts tunedProcessor) =
     \<lparr> lowCutFreq = 100, highCutFreq = 5000, peakFreq = 1000, peakGainInDecibels = 20,
       peakQuality = 2, lowCutSlope = 1, highCutSlope = 0,
       lowCutBypassed = False, peakBypassed = False, highCutBypassed = True \<rparr>"
  by (simp add: tunedProcessor_def getChainSettings_def tunedParameters_def truncToInt_def)

text \<open>
  C4: on a buffer with the two channels the code reads, \<^verbatim>\<open>processBlock\<close> returns, and
  whatever the chains held before, after it both chains hold what the settings read from
  the parameter store at the start of the block give: the ten settings are the ten values
  of the store; the peak filter has the coefficients \<^verbatim>\<open>makePeakFilter\<close> computes from
  them; in the low-cut and in the high-cut band every section within the order is active
  and holds its coefficient set of the design \<^verbatim>\<open>makeLowCutFilter\<close>,
  \<^verbatim>\<open>makeHighCutFilter\<close> compute from them, and every section beyond the order is bypassed
  and keeps the coefficient set it held before the block; the three band
  flags are the three bypass settings.  The block is filtered by the chains so updated, and
  the parameter store is not changed.
\<close>

theorem processBlock_recomputes_coefficients:
  assumes "2 \<le> length buffer"
    and "totalNumOutputChannels p \<le> length buffer"
    and "channelToUse (leftChannelFifo p) < length buffer"
    and "channelToUse (rightChannelFifo p) < length buffer"
  shows "\<exists>p' buffer' cleared settings.
           processBlock J p buffer = Inr (p', buffer')
           \<and> clearChannels (totalNumInputChannels p) (totalNumOutputChannels p) buffer = Inr cleared
           \<and> settings =
               \<lparr> lowCutFreq = apvts p ''LowCut Freq'',
                 highCutFreq = apvts p ''HighCut Freq'',
                 peakFreq = apvts p ''Peak Freq'',
                 peakGainInDecibels = apvts p ''Peak Gain'',
                 peakQuality = apvts p ''Peak Quality'',
                 lowCutSlope = truncToInt (apvts p ''LowCut Slope''),
                 highCutSlope = truncToInt (apvts p ''HighCut Slope''),
                 lowCutBypassed = (apvts p ''LowCut Bypassed'' > 0.5),
                 peakBypassed = (apvts p ''Peak Bypassed'' > 0.5),
                 highCutBypassed = (apvts p ''HighCut Bypassed'' > 0.5) \<rparr>
           \<and> settings = getChainSettings (apvts p)
           \<and> apvts p' = apvts p
           \<and> coefficients (peak (leftChain p')) = makePeakFilter J settings (sampleRate p)
           \<and> coefficients (peak (rightChain p')) = makePeakFilter J settings (sampleRate p)
           \<and> cutSectionsOf (lowCut (leftChain p')) =
               spec_cutSections (makeLowCutFilter J settings (sampleRate p)) (lowCutSlope settings)
                 (lowCut (leftChain p))
           \<and> cutSectionsOf (lowCut (rightChain p')) =
               spec_cutSections (makeLowCutFilter J settings (sampleRate p)) (lowCutSlope settings)
                 (lowCut (rightChain p))
           \<and> cutSectionsOf (highCut (leftChain p')) =
               spec_cutSections (makeHighCutFilter J settings (sampleRate p)) (highCutSlope settings)
                 (highCut (leftChain p))
           \<and> cutSectionsOf (highCut (rightChain p')) =
               spec_cutSections (makeHighCutFilter J settings (sampleRate p)) (highCutSlope settings)
                 (highCut (rightChain p))
           \<and> [bypassedLowCut (leftChain p'), bypassedPeak (leftChain p'),
               bypassedHighCut (leftChain p')] =
              [lowCutBypassed settings, peakBypassed settings, highCutBypassed settings]
           \<and> [bypassedLowCut (rightChain p'), bypassedPeak (rightChain p'),
               bypassedHighCut (rightChain p')] =
              [lowCutBypassed settings, peakBypassed settings, highCutBypassed settings]
           \<and> chainDesign (leftChain p') = chainDesign (leftChain (updateFilters J p))
           \<and> chainDesign (rightChain p') = chainDesign (rightChain (updateFilters J p))
           \<and> buffer' ! 0 = fst (processMonoChain J (leftChain (updateFilters J p)) (cleared ! 0))
           \<and> buffer' ! 1 = fst (processMonoChain J (rightChain (updateFilters J p)) (cleared ! 1))"
proof -
  let ?cs = "getChainSettings (apvts p)"
  from processBlock_effect [OF assms, of J]
  obtain p' buffer' cleared where r:
    "processBlock J p buffer = Inr (p', buffer')"
    "clearChannels (totalNumInputChannels p) (totalNumOutputChannels p) buffer = Inr cleared"
    "apvts p' = apvts p"
    "chainDesign (leftChain p') = chainDesign (leftChain (updateFilters J p))"
    "chainDesign (rightChain p') = chainDesign (rightChain (updateFilters J p))"
    "coefficients (peak (leftChain p')) = makePeakFilter J ?cs (sampleRate p)"
    "coefficients (peak (rightChain p')) = makePeakFilter J ?cs (sampleRate p)"
    "buffer' ! 0 = fst (processMonoChain J (leftChain (updateFilters J p)) (cleared ! 0))"
    "buffer' ! 1 = fst (processMonoChain J (rightChain (updateFilters J p)) (cleared ! 1))"
    by blast
  have read: "?cs =
               \<lparr> lowCutFreq = apvts p ''LowCut Freq'',
                 highCutFreq = apvts p ''HighCut Freq'',
                 peakFreq = apvts p ''Peak Freq'',
                 peakGainInDecibels = apvts p ''Peak Gain'',
                 peakQuality = apvts p ''Peak Quality'',
                 lowCutSlope = truncToInt (apvts p ''LowCut Slope''),
                 highCutSlope = truncToInt (apvts p ''HighCut Slope''),
                 lowCutBypassed = (apvts p ''LowCut Bypassed'' > 0.5),
                 peakBypassed = (apvts p ''Peak Bypassed'' > 0.5),
                 highCutBypassed = (apvts p ''HighCut Bypassed'' > 0.5) \<rparr>"
    by (rule getChainSettings_def)
  have low: "cutSectionsOf (lowCut (leftChain p')) =
      spec_cutSections (makeLowCutFilter J ?cs (sampleRate p)) (lowCutSlope ?cs) (lowCut (leftChain p))"
    "cutSectionsOf (lowCut (rightChain p')) =
      spec_cutSections (makeLowCutFilter J ?cs (sampleRate p)) (lowCutSlope ?cs) (lowCut (rightChain p))"
    using chainDesign_sections(1) [OF r(4)] chainDesign_sections(1) [OF r(5)]
    by (simp_all only: updateFilters_cut)
  have high: "cutSectionsOf (highCut (leftChain p')) =
      spec_cutSections (makeHighCutFilter J ?cs (sampleRate p)) (highCutSlope ?cs) (highCut (leftChain p))"
    "cutSectionsOf (highCut (rightChain p')) =
      spec_cutSections (makeHighCutFilter J ?cs (sampleRate p)) (highCutSlope ?cs) (highCut (rightChain p))"
    using chainDesign_sections(2) [OF r(4)] chainDesign_sections(2) [OF r(5)]
    by (simp_all only: updateFilters_cut)
  have fl: "[bypassedLowCut (leftChain p'), bypassedPeak (leftChain p'), bypassedHighCut (leftChain p')] =
      [lowCutBypassed ?cs, peakBypassed ?cs, highCutBypassed ?cs]"
    using r(4) by (simp add: chainDesign_def updateFilters_peak)
  have fr: "[bypassedLowCut (rightChain p'), bypassedPeak (rightChain p'), bypassedHighCut (rightChain p')] =
      [lowCutBypassed ?cs, peakBypassed ?cs, highCutBypassed ?cs]"
    using r(5) by (simp add: chainDesign_def updateFilters_peak)
  show ?thesis
    apply (rule exI [of _ p'], rule exI [of _ buffer'], rule exI [of _ cleared], rule exI [of _ ?cs])
    apply (intro conjI)
    apply (rule r(1) r(2) read refl r(3) r(6) r(7) low high fl fr r(4) r(5) r(8) r(9))+
    done
qed

theorem processBlock_recomputes_coefficients_witness:
  "2 \<le> length [[Fin 1, Fin 2], [Fin 3, Fin 4]]
   \<and> totalNumOutputChannels tunedProcessor \<le> length [[Fin 1, Fin 2], [Fin 3, Fin 4]]
   \<and> channelToUse (leftChannelFifo tunedProcessor) < length [[Fin 1, Fin 2], [Fin 3, Fin 4]]
   \<and> channelToUse (rightChannelFifo tunedProcessor) < length [[Fin 1, Fin 2], [Fin 3, Fin 4]]
   \<and> (\<exists>p' buffer'.
         processBlock exampleExt tunedProcessor [[Fin 1, Fin 2], [Fin 3, Fin 4]] = Inr (p', buffer')
         \<and> coefficients (peak (leftChain p')) = [Fin 10, Fin 1000, Fin 2]
         \<and> coefficients (peak (rightChain p')) = [Fin 10, Fin 1000, Fin 2]
         \<and> cutSectionsOf (lowCut (leftChain p')) =
             [([Fin 100], False), ([Fin 100], False), ([Fin 1], True), ([Fin 1], True)]
         \<and> cutSectionsOf (highCut (rightChain p')) =
             [([Fin 5000], False), ([Fin 1], True), ([Fin 1], True), ([Fin 1], True)]
         \<and> [bypassedLowCut (leftChain p'), bypassedPeak (leftChain p'),
             bypassedHighCut (leftChain p')] = [False, False, True])"
proof -
  have h: "2 \<le> length [[Fin 1, Fin 2], [Fin 3, Fin 4]]"
    "totalNumOutputChannels tunedProcessor \<le> length [[Fin 1, Fin 2], [Fin 3, Fin 4]]"
    "channelToUse (leftChannelFifo tunedProcessor) < length [[Fin 1, Fin 2], [Fin 3, Fin 4]]"
    "channelToUse (rightChannelFifo tunedProcessor) < length [[Fin 1, Fin 2], [Fin 3, Fin 4]]"
    by (simp_all add: tunedProcessor_def exampleProcessor_def)
  from processBlock_recomputes_coefficients [OF h, of exampleExt]
  obtain p' buffer' settings where r:
    "processBlock exampleExt tunedProcessor [[Fin 1, Fin 2], [Fin 3, Fin 4]] = Inr (p', buffer')"
    "settings = getChainSettings (apvts tunedProcessor)"
    "coefficients (peak (leftChain p')) = makePeakFilter exampleExt settings (sampleRate tunedProcessor)"
    "coefficients (peak (rightChain p')) = makePeakFilter exampleExt settings (sampleRate tunedProcessor)"
    "cutSectionsOf (lowCut (leftChain p')) =
       spec_cutSections (makeLowCutFilter exampleExt settings (sampleRate tunedProcessor))
         (lowCutSlope settings) (lowCut (leftChain tunedProcessor))"
    "cutSectionsOf (highCut (rightChain p')) =
       spec_cutSections (makeHighCutFilter exampleExt settings (sampleRate tunedProcessor))
         (highCutSlope settings) (highCut (rightChain tunedProcessor))"
    "[bypassedLowCut (leftChain p'), bypassedPeak (leftChain p'), bypassedHighCut (leftChain p')] =
       [lowCutBypassed settings, peakBypassed settings, highCutBypassed settings]"
    by blast
  have s: "settings =
     \<lparr> lowCutFreq = 100, highCutFreq = 5000, peakFreq = 1000, peakGainInDecibels = 20,
       peakQuality = 2, lowCutSlope = 1, highCutSlope = 0,
       lowCutBypassed = False, peakBypassed = False, highCutBypassed = True \<rparr>"
    using r(2) by (simp only: tunedSettings)
  have pk: "makePeakFilter exampleExt settings (sampleRate tunedProcessor) = [Fin 10, Fin 1000, Fin 2]"
    by (simp add: s makePeakFilter_def exampleExt_def decibelsToGain_def defaultMinusInfinitydB_def)
  have old: "cutSectionsOf (lowCut (leftChain tunedProcessor)) =
      [([Fin 1], False), ([Fin 1], True), ([Fin 1], True), ([Fin 1], True)]"
    "cutSectionsOf (highCut (rightChain tunedProcessor)) =
      [([Fin 1], False), ([Fin 1], True), ([Fin 1], True), ([Fin 1], True)]"
    by (simp_all add: cutSectionsOf_def tunedProcessor_def exampleProcessor_def exampleChain_def
          exampleCutFilter_def exampleFilter_def)
  have low: "spec_cutSections (makeLowCutFilter exampleExt settings (sampleRate tunedProcessor))
         (lowCutSlope settings) (lowCut (leftChain tunedProcessor)) =
      [([Fin 100], False), ([Fin 100], False), ([Fin 1], True), ([Fin 1], True)]"
    by (simp add: s spec_cutSections_def old exampleExt_def numeral_2_eq_2)
  have high: "spec_cutSections (makeHighCutFilter exampleExt settings (sampleRate tunedProcessor))
         (highCutSlope settings) (highCut (rightChain tunedProcessor)) =
      [([Fin 5000], False), ([Fin 1], True), ([Fin 1], True), ([Fin 1], True)]"
    by (simp add: s spec_cutSections_def old exampleExt_def)
  have fl: "[lowCutBypassed settings, peakBypassed settings, highCutBypassed settings] = [False, False, True]"
    by (simp add: s)
  show ?thesis
    using h r(1) r(3) r(4) r(5) r(6) r(7) unfolding pk low high fl by blast
qed

subsection \<open>The response curve\<close>

lemma fmul_one: "fmul x (Fin 1) = x"
  by (cases x) (simp_all add: infOfSign_def)

lemma cutMagnitude_spec:
  "cutMagnitude J c freq sr mag =
     foldl fmul mag (map (spec_stageGain J sr freq) (spec_cutStages False c))"
  by (simp add: cutMagnitude_def spec_cutStages_def spec_stageGain_def Let_def fmul_one)

lemma cut_bypassed_spec:
  "foldl fmul mag (map (spec_stageGain J sr freq) (spec_cutStages True c)) = mag"
  by (simp add: spec_cutStages_def spec_stageGain_def fmul_one)

lemma chainMagnitude_spec:
  "chainMagnitude J m sr freq = spec_magnitude J m sr freq"
proof -
  have low: "(if \<not> bypassedLowCut m then cutMagnitude J (lowCut m) freq sr mag else mag) =
      foldl fmul mag (map (spec_stageGain J sr freq) (spec_cutStages (bypassedLowCut m) (lowCut m)))"
    for mag by (cases "bypassedLowCut m") (simp_all add: cutMagnitude_spec cut_bypassed_spec)
  have high: "(if \<not> bypassedHighCut m then cutMagnitude J (highCut m) freq sr mag else mag) =
      foldl fmul mag (map (spec_stageGain J sr freq) (spec_cutStages (bypassedHighCut m) (highCut m)))"
    for mag by (cases "bypassedHighCut m") (simp_all add: cutMagnitude_spec cut_bypassed_spec)
  have pk: "(if \<not> bypassedPeak m
             then fmul (Fin 1) (getMagnitudeForFrequency J (coefficients (peak m)) freq sr)
             else Fin 1) =
      fmul (Fin 1) (spec_stageGain J sr freq (bypassedPeak m, coefficients (peak m)))"
    by (simp add: spec_stageGain_def)
  show ?thesis
    unfolding chainMagnitude_def Let_def low high pk spec_magnitude_def spec_stages_def
    by simp
qed

lemma magsLoop_eq:
  "i \<le> w \<Longrightarrow> length mags = w \<Longrightarrow>
   magsLoop J m sr w i mags =
     take i mags @
     map (\<lambda>k. gainToDecibels (chainMagnitude J m sr (columnFrequency w k)) defaultMinusInfinitydB)
       [i..<w]"
proof (induction J m sr w i mags rule: magsLoop.induct)
  case (1 J m sr w i mags)
  show ?case
  proof (cases "i < w")
    case True
    then show ?thesis
      using 1 by (subst magsLoop.simps)
        (simp add: upt_conv_Cons take_Suc_conv_app_nth)
  next
    case False
    then show ?thesis using 1 by (subst magsLoop.simps) simp
  qed
qed

lemma curveLoop_eq:
  "i \<le> length mags \<Longrightarrow>
   curveLoop area mags i path =
     path @ map (\<lambda>k. LineTo (Fin (of_int (rectX area + int k))) (mapToArea area (mags ! k)))
              [i..<length mags]"
proof (induction area mags i path rule: curveLoop.induct)
  case (1 area mags i path)
  show ?case
  proof (cases "i < length mags")
    case True
    then show ?thesis
      using 1 by (subst curveLoop.simps) (simp add: upt_conv_Cons)
  next
    case False
    then show ?thesis using 1 by (subst curveLoop.simps) simp
  qed
qed

lemma gainToDecibels_unity: "gainToDecibels (Fin 1) defaultMinusInfinitydB = Fin 0"
  by (simp add: gainToDecibels_def defaultMinusInfinitydB_def jmax_def)

lemma spec_magnitude_bypassed:
  "bypassedPeak m \<Longrightarrow> bypassedLowCut m \<Longrightarrow> bypassedHighCut m \<Longrightarrow>
   spec_magnitude J m sr freq = Fin 1"
  by (simp add: spec_magnitude_def spec_stages_def spec_stageGain_def cut_bypassed_spec)


lemma exampleArea:
  "getAnalysisArea (exampleComponent changed analysis) = \<lparr> rectX = 20, rectY = 16, rectW = 3, rectH = 8 \<rparr>"
  by (simp add: getAnalysisArea_def getRenderArea_def exampleComponent_def removeFromTop_def
        removeFromBottom_def removeFromLeft_def removeFromRight_def Let_def)

lemma paint_run:
  assumes "0 < rectW (getAnalysisArea c)"
  shows "paint J p c =
      Inr \<lparr> responseCurve = spec_responseCurve J (monoChain c) (sampleRate p) (getAnalysisArea c),
            fftPaths =
              (if shouldShowFFTAnalysis c
               then Some (map (translateElement (Fin (of_int (rectX (getAnalysisArea c))))
                                 (Fin (of_int (rectY (getAnalysisArea c)))))
                            (leftChannelFFTPath (leftPathProducer c)),
                          map (translateElement (Fin (of_int (rectX (getAnalysisArea c))))
                                 (Fin (of_int (rectY (getAnalysisArea c)))))
                            (leftChannelFFTPath (rightPathProducer c)))
               else None) \<rparr>"
proof -
  define area where "area = getAnalysisArea c"
  define w where "w = nat (rectW area)"
  define g where "g = (\<lambda>k. gainToDecibels (chainMagnitude J (monoChain c) (sampleRate p)
                         (columnFrequency w k)) defaultMinusInfinitydB)"
  define mags where "mags = magsLoop J (monoChain c) (sampleRate p) w 0 (replicate w (Fin 0))"
  have wpos: "0 < w" using assms by (simp add: w_def area_def)
  have mags: "mags = map g [0..<w]"
    unfolding mags_def g_def by (subst magsLoop_eq) simp_all
  have len: "length mags = w" by (simp add: mags)
  have nth: "mags ! k = g k" if "k < w" for k using that by (simp add: mags)
  have y: "mapToArea area (g k) = spec_columnY J (monoChain c) (sampleRate p) area k" for k
    by (simp add: g_def spec_columnY_def mapToArea_def getBottom_def Let_def chainMagnitude_spec
          columnFrequency_def w_def)
  have upt: "[0..<w] = 0 # [1..<w]" using wpos by (simp add: upt_conv_Cons)
  have tail: "map (\<lambda>k. LineTo (Fin (of_int (rectX area + int k))) (mapToArea area (mags ! k))) [1..<w] =
      map (\<lambda>i. (if i = 0 then StartNewSubPath else LineTo)
                 (Fin (of_int (rectX area + int i))) (spec_columnY J (monoChain c) (sampleRate p) area i))
        [1..<w]"
    by (rule map_cong) (auto simp: nth y)
  have curve: "curveLoop area mags 1
          [StartNewSubPath (Fin (of_int (rectX area))) (mapToArea area (mags ! 0))] =
        spec_responseCurve J (monoChain c) (sampleRate p) area"
    using wpos
    by (subst curveLoop_eq) (simp_all add: len tail spec_responseCurve_def w_def[symmetric] upt nth y)
  have run: "paint J p c =
      Inr \<lparr> responseCurve = spec_responseCurve J (monoChain c) (sampleRate p) area,
            fftPaths =
              (if shouldShowFFTAnalysis c
               then Some (map (translateElement (Fin (of_int (rectX area))) (Fin (of_int (rectY area))))
                            (leftChannelFFTPath (leftPathProducer c)),
                          map (translateElement (Fin (of_int (rectX area))) (Fin (of_int (rectY area))))
                            (leftChannelFFTPath (rightPathProducer c)))
               else None) \<rparr>"
    using assms curve
    by (simp add: paint_def Let_def area_def[symmetric] w_def[symmetric] mags_def[symmetric])
  show ?thesis using run by (simp add: area_def)
qed

text \<open>
  C1: for an analysis area of positive width \<open>w\<close>, \<^verbatim>\<open>paint\<close> draws the response curve
  with one point per pixel column \<open>i < w\<close>, at the frequency
  \<^verbatim>\<open>mapToLog10 (i / w, 20, 20000)\<close>, whose magnitude is the product over the stages of the
  chain in which a bypassed stage, or a stage of a bypassed band, counts as the gain one;
  the product is converted to decibels and mapped onto the area.  With the three bands
  bypassed the value is 0 dB at every frequency.  The map is linear on finite values: it
  sends -24 dB to the bottom of the area and +24 dB to its top.
\<close>

theorem paint_response_curve:
  assumes "0 < rectW (getAnalysisArea c)"
  shows "\<exists>painted.
           paint J p c = Inr painted
           \<and> responseCurve painted =
               spec_responseCurve J (monoChain c) (sampleRate p) (getAnalysisArea c)
           \<and> (\<forall>freq. bypassedPeak (monoChain c) \<and> bypassedLowCut (monoChain c)
                   \<and> bypassedHighCut (monoChain c) \<longrightarrow>
                 gainToDecibels (spec_magnitude J (monoChain c) (sampleRate p) freq)
                   defaultMinusInfinitydB = Fin 0)
           \<and> (\<forall>d. jmap (Fin d) (Fin (- 24)) (Fin 24)
                     (Fin (of_int (rectY (getAnalysisArea c) + rectH (getAnalysisArea c))))
                     (Fin (of_int (rectY (getAnalysisArea c)))) =
                   Fin (of_int (rectY (getAnalysisArea c) + rectH (getAnalysisArea c))
                        - of_int (rectH (getAnalysisArea c)) * (d + 24) / 48))"
proof -
  let ?area = "getAnalysisArea c"
  have run: "\<exists>painted. paint J p c = Inr painted
      \<and> responseCurve painted = spec_responseCurve J (monoChain c) (sampleRate p) ?area"
    by (simp add: paint_run [OF assms])
  have unity: "gainToDecibels (spec_magnitude J (monoChain c) (sampleRate p) freq)
        defaultMinusInfinitydB = Fin 0"
    if "bypassedPeak (monoChain c)" "bypassedLowCut (monoChain c)" "bypassedHighCut (monoChain c)"
    for freq
    using that by (simp add: spec_magnitude_bypassed gainToDecibels_unity)
  have lin: "jmap (Fin d) (Fin (- 24)) (Fin 24)
        (Fin (of_int (rectY ?area + rectH ?area))) (Fin (of_int (rectY ?area))) =
      Fin (of_int (rectY ?area + rectH ?area) - of_int (rectH ?area) * (d + 24) / 48)" for d
    by (simp add: jmap_def fsub_def)
  show ?thesis using run unity lin by blast
qed

theorem paint_response_curve_witness:
  "0 < rectW (getAnalysisArea (exampleComponent False False))
   \<and> (\<exists>painted.
         paint exampleExt (exampleProcessor 2) (exampleComponent False False) = Inr painted
         \<and> length (responseCurve painted) = 3)"
  using paint_response_curve [of "exampleComponent False False" exampleExt "exampleProcessor 2"]
  by (auto simp: exampleArea spec_responseCurve_def)

subsection \<open>The timer callback\<close>

lemma timerCallback_off:
  assumes "\<not> shouldShowFFTAnalysis c"
  shows "timerCallback J (p, c) =
           Inr (p, (if parametersChanged c then updateChain J p (c\<lparr>parametersChanged := False\<rparr>) else c)
                     \<lparr>repaintPending := True\<rparr>)"
  using assms by (simp add: timerCallback_def compareAndSetBool_def Let_def)

lemma updateChain_frame:
  "parametersChanged (updateChain J p c) = parametersChanged c"
  "leftPathProducer (updateChain J p c) = leftPathProducer c"
  "rightPathProducer (updateChain J p c) = rightPathProducer c"
  "shouldShowFFTAnalysis (updateChain J p c) = shouldShowFFTAnalysis c"
  "localBounds (updateChain J p c) = localBounds c"
  "repaintPending (updateChain J p c) = repaintPending c"
  by (simp_all add: updateChain_def Let_def)

lemma updateChain_depends:
  "monoChain c1 = monoChain c2 \<Longrightarrow> apvts p1 = apvts p2 \<Longrightarrow> sampleRate p1 = sampleRate p2 \<Longrightarrow>
   monoChain (updateChain J p1 c1) = monoChain (updateChain J p2 c2)"
  by (simp add: updateChain_def Let_def)

lemma timerCallback_effect:
  assumes "timerCallback J (p, c) = Inr (p', c')"
  shows "\<not> parametersChanged c' \<and> repaintPending c'
         \<and> monoChain c' = (if parametersChanged c then monoChain (updateChain J p c) else monoChain c)
         \<and> shouldShowFFTAnalysis c' = shouldShowFFTAnalysis c
         \<and> localBounds c' = localBounds c
         \<and> apvts p' = apvts p \<and> sampleRate p' = sampleRate p
         \<and> leftChain p' = leftChain p \<and> rightChain p' = rightChain p"
proof (cases "shouldShowFFTAnalysis c")
  case False
  have m: "monoChain (updateChain J p (c\<lparr>parametersChanged := False\<rparr>)) = monoChain (updateChain J p c)"
    by (rule updateChain_depends) simp_all
  from False show ?thesis using assms m
    by (auto simp: timerCallback_off updateChain_frame)
next
  case True
  obtain lf lpp where l: "process J (toFloat (getAnalysisArea c)) (sampleRate p)
        (leftChannelFifo p, leftPathProducer c) = Inr (lf, lpp)"
    using assms True by (auto simp: timerCallback_def Let_def split: sum.splits)
  obtain rf rpp where r: "process J (toFloat (getAnalysisArea c)) (sampleRate p)
        (rightChannelFifo p, rightPathProducer c) = Inr (rf, rpp)"
    using assms True l by (auto simp: timerCallback_def Let_def split: sum.splits)
  define p1 where "p1 = p\<lparr>leftChannelFifo := lf, rightChannelFifo := rf\<rparr>"
  define c1 where "c1 = c\<lparr>leftPathProducer := lpp, rightPathProducer := rpp\<rparr>"
  have res: "p' = p1"
    "c' = (if parametersChanged c then updateChain J p1 (c1\<lparr>parametersChanged := False\<rparr>) else c1)
             \<lparr>repaintPending := True\<rparr>"
    using assms True l r
    by (auto simp: timerCallback_def Let_def compareAndSetBool_def p1_def c1_def split: if_splits)
  have m: "monoChain (updateChain J p1 (c1\<lparr>parametersChanged := False\<rparr>)) = monoChain (updateChain J p c)"
    by (rule updateChain_depends) (simp_all add: p1_def c1_def)
  show ?thesis
    unfolding res using m
    by (simp add: updateChain_frame) (simp add: p1_def c1_def)
qed

lemma exampleArea_repaint:
  "getAnalysisArea (exampleComponent changed analysis\<lparr>repaintPending := True\<rparr>) =
     \<lparr> rectX = 20, rectY = 16, rectW = 3, rectH = 8 \<rparr>"
  by (simp add: getAnalysisArea_def getRenderArea_def exampleComponent_def removeFromTop_def
        removeFromBottom_def removeFromLeft_def removeFromRight_def Let_def)

text \<open>
  C3, as amended: a timer callback that returns has cleared the flag
  \<open>parametersChanged\<close>, has replaced the chain of the curve by the one \<^verbatim>\<open>updateChain\<close>
  computes exactly when the flag was set, and has asked for a repaint in either case; any
  number \<open>n\<close> of parameter notifications after it changes nothing of the component but the
  flag, which is set exactly when \<open>n\<close> is positive.  The points of the curve are computed
  by \<^verbatim>\<open>paint\<close>, from that chain, at every repaint.
\<close>

theorem timerCallback_updates_chain_only_when_flagged:
  assumes "timerCallback J (p, c) = Inr (p', c')"
  shows "\<not> parametersChanged c'
         \<and> (parametersChanged c \<longrightarrow> monoChain c' = monoChain (updateChain J p c))
         \<and> (\<not> parametersChanged c \<longrightarrow> monoChain c' = monoChain c)
         \<and> repaintPending c'
         \<and> (\<forall>n. (parameterValueChanged ^^ n) c' = c'\<lparr>parametersChanged := 0 < n\<rparr>)"
proof -
  have e: "\<not> parametersChanged c'" "repaintPending c'"
    "monoChain c' = (if parametersChanged c then monoChain (updateChain J p c) else monoChain c)"
    using timerCallback_effect [OF assms] by simp_all
  have n: "(parameterValueChanged ^^ n) c' = c'\<lparr>parametersChanged := 0 < n\<rparr>" for n
  proof (induction n)
    case 0
    then show ?case using e(1) by simp
  next
    case (Suc n)
    then show ?case by (simp add: parameterValueChanged_def)
  qed
  show ?thesis using e n by simp
qed

theorem timerCallback_updates_chain_only_when_flagged_witness:
  "timerCallback exampleExt (exampleProcessor 2, exampleComponent True False) =
     Inr (exampleProcessor 2,
          updateChain exampleExt (exampleProcessor 2) (exampleComponent False False)
            \<lparr>repaintPending := True\<rparr>)
   \<and> \<not> parametersChanged (updateChain exampleExt (exampleProcessor 2) (exampleComponent False False)
            \<lparr>repaintPending := True\<rparr>)
   \<and> monoChain (updateChain exampleExt (exampleProcessor 2) (exampleComponent False False)
            \<lparr>repaintPending := True\<rparr>) =
       monoChain (updateChain exampleExt (exampleProcessor 2) (exampleComponent True False))"
proof -
  have run: "timerCallback exampleExt (exampleProcessor 2, exampleComponent True False) =
     Inr (exampleProcessor 2,
          updateChain exampleExt (exampleProcessor 2) (exampleComponent False False)
            \<lparr>repaintPending := True\<rparr>)"
    by (simp add: timerCallback_off exampleComponent_def)
  have c: "parametersChanged (exampleComponent True False)"
    by (simp add: exampleComponent_def)
  show ?thesis
    using timerCallback_updates_chain_only_when_flagged [OF run] run c by simp
qed

text \<open>
  C3, as stated, fails: on a tick with no parameter change the component is marked for
  repaint, and \<^verbatim>\<open>paint\<close> computes the three points of the curve again.
\<close>

theorem idle_tick_repaints_counterexample:
  "\<not> parametersChanged (exampleComponent False False)
   \<and> (\<exists>p' c' painted.
         timerCallback exampleExt (exampleProcessor 2, exampleComponent False False) = Inr (p', c')
         \<and> repaintPending c'
         \<and> paint exampleExt p' c' = Inr painted
         \<and> length (responseCurve painted) = 3)"
proof -
  have c: "\<not> parametersChanged (exampleComponent False False)"
    by (simp add: exampleComponent_def)
  have run: "timerCallback exampleExt (exampleProcessor 2, exampleComponent False False) =
     Inr (exampleProcessor 2, exampleComponent False False\<lparr>repaintPending := True\<rparr>)"
    using c by (simp add: timerCallback_off exampleComponent_def)
  have "0 < rectW (getAnalysisArea (exampleComponent False False\<lparr>repaintPending := True\<rparr>))"
    by (simp add: exampleArea_repaint)
  from paint_run [OF this, of exampleExt "exampleProcessor 2"]
  obtain painted where
    "paint exampleExt (exampleProcessor 2) (exampleComponent False False\<lparr>repaintPending := True\<rparr>) =
       Inr painted"
    "length (responseCurve painted) = 3"
    by (simp add: exampleArea_repaint spec_responseCurve_def)
  then show ?thesis using c run by simp
qed

text \<open>
  C2, as amended: with the analysis switched off, the timer callback returns with the
  processor unchanged (nothing is pulled from the sample queues) and with both path
  producers unchanged (frame queue, path queue, sample window and displayed path); it
  still checks the flag, updates the chain of the curve when the flag was set, and asks
  for a repaint.  \<^verbatim>\<open>processBlock\<close> does not read the switch: it still recomputes the
  filters, filters the block and hands the processed buffer to both sample queues.
\<close>

theorem timerCallback_skips_analysis_when_disabled:
  assumes "\<not> shouldShowFFTAnalysis c"
  shows "(\<exists>c'. timerCallback J (p, c) = Inr (p, c')
            \<and> leftPathProducer c' = leftPathProducer c
            \<and> rightPathProducer c' = rightPathProducer c
            \<and> monoChain c' = (if parametersChanged c then monoChain (updateChain J p c) else monoChain c)
            \<and> repaintPending c')
         \<and> (2 \<le> length buffer \<and> totalNumOutputChannels p \<le> length buffer
              \<and> channelToUse (leftChannelFifo p) < length buffer
              \<and> channelToUse (rightChannelFifo p) < length buffer \<longrightarrow>
             (\<exists>p' buffer'.
                processBlock J p buffer = Inr (p', buffer')
                \<and> chainDesign (leftChain p') = chainDesign (leftChain (updateFilters J p))
                \<and> chainDesign (rightChain p') = chainDesign (rightChain (updateFilters J p))
                \<and> update buffer' (leftChannelFifo p) = Inr (leftChannelFifo p')
                \<and> update buffer' (rightChannelFifo p) = Inr (rightChannelFifo p')))"
proof -
  define c' where "c' = (if parametersChanged c then updateChain J p (c\<lparr>parametersChanged := False\<rparr>) else c)
                     \<lparr>repaintPending := True\<rparr>"
  have run: "timerCallback J (p, c) = Inr (p, c')"
    unfolding c'_def by (rule timerCallback_off [OF assms])
  have pp: "leftPathProducer c' = leftPathProducer c" "rightPathProducer c' = rightPathProducer c"
    by (simp_all add: c'_def updateChain_frame)
  have a: "\<exists>c'. timerCallback J (p, c) = Inr (p, c')
            \<and> leftPathProducer c' = leftPathProducer c
            \<and> rightPathProducer c' = rightPathProducer c
            \<and> monoChain c' = (if parametersChanged c then monoChain (updateChain J p c) else monoChain c)
            \<and> repaintPending c'"
    using run pp timerCallback_effect [OF run] by blast
  have b: "\<exists>p' buffer'.
                processBlock J p buffer = Inr (p', buffer')
                \<and> chainDesign (leftChain p') = chainDesign (leftChain (updateFilters J p))
                \<and> chainDesign (rightChain p') = chainDesign (rightChain (updateFilters J p))
                \<and> update buffer' (leftChannelFifo p) = Inr (leftChannelFifo p')
                \<and> update buffer' (rightChannelFifo p) = Inr (rightChannelFifo p')"
    if "2 \<le> length buffer" "totalNumOutputChannels p \<le> length buffer"
       "channelToUse (leftChannelFifo p) < length buffer"
       "channelToUse (rightChannelFifo p) < length buffer"
    using processBlock_effect [OF that, of J] by blast
  show ?thesis using a b by blast
qed

theorem timerCallback_skips_analysis_when_disabled_witness:
  "\<not> shouldShowFFTAnalysis (exampleComponent False False)
   \<and> (\<exists>c'. timerCallback exampleExt (exampleProcessor 2, exampleComponent False False) =
              Inr (exampleProcessor 2, c')
            \<and> leftPathProducer c' = examplePathProducer [] []
            \<and> rightPathProducer c' = examplePathProducer [] [])
   \<and> (\<exists>p' buffer'.
         processBlock exampleExt (exampleProcessor 2) [[Fin 1, Fin 2], [Fin 3, Fin 4]] = Inr (p', buffer')
         \<and> update buffer' (leftChannelFifo (exampleProcessor 2)) = Inr (leftChannelFifo p'))"
proof -
  have h: "\<not> shouldShowFFTAnalysis (exampleComponent False False)"
    by (simp add: exampleComponent_def)
  have pre: "2 \<le> length [[Fin 1, Fin 2], [Fin 3, Fin 4]]
     \<and> totalNumOutputChannels (exampleProcessor 2) \<le> length [[Fin 1, Fin 2], [Fin 3, Fin 4]]
     \<and> channelToUse (leftChannelFifo (exampleProcessor 2)) < length [[Fin 1, Fin 2], [Fin 3, Fin 4]]
     \<and> channelToUse (rightChannelFifo (exampleProcessor 2)) < length [[Fin 1, Fin 2], [Fin 3, Fin 4]]"
    by (simp add: exampleProcessor_def)
  have pp: "leftPathProducer (exampleComponent False False) = examplePathProducer [] []"
    "rightPathProducer (exampleComponent False False) = examplePathProducer [] []"
    by (simp_all add: exampleComponent_def)
  show ?thesis
    using timerCallback_skips_analysis_when_disabled
      [OF h, of exampleExt "exampleProcessor 2" "[[Fin 1, Fin 2], [Fin 3, Fin 4]]"] h pre
    unfolding pp by blast
qed

text \<open>
  C2, as stated, fails: with the analysis switched off, \<^verbatim>\<open>processBlock\<close> on a block of two
  channels puts a block into each of the two empty sample queues.
\<close>

theorem processBlock_pushes_with_analysis_off_counterexample:
  "\<not> shouldShowFFTAnalysis (exampleComponent False False)
   \<and> fifoBuffers (audioBufferFifo (leftChannelFifo (exampleProcessor 2))) = []
   \<and> (\<exists>p' buffer'.
         processBlock exampleExt (exampleProcessor 2) [[Fin 1, Fin 2], [Fin 3, Fin 4]] = Inr (p', buffer')
         \<and> length (fifoBuffers (audioBufferFifo (leftChannelFifo p'))) = 1
         \<and> length (fifoBuffers (audioBufferFifo (rightChannelFifo p'))) = 1)"
proof -
  have h: "\<not> shouldShowFFTAnalysis (exampleComponent False False)"
    by (simp add: exampleComponent_def)
  have e: "fifoBuffers (audioBufferFifo (leftChannelFifo (exampleProcessor 2))) = []"
    by (simp add: exampleProcessor_def)
  have pre: "2 \<le> length [[Fin 1, Fin 2], [Fin 3, Fin 4]]"
     "totalNumOutputChannels (exampleProcessor 2) \<le> length [[Fin 1, Fin 2], [Fin 3, Fin 4]]"
     "channelToUse (leftChannelFifo (exampleProcessor 2)) < length [[Fin 1, Fin 2], [Fin 3, Fin 4]]"
     "channelToUse (rightChannelFifo (exampleProcessor 2)) < length [[Fin 1, Fin 2], [Fin 3, Fin 4]]"
    by (simp_all add: exampleProcessor_def)
  from processBlock_effect [OF pre, of exampleExt]
  obtain p' buffer' where r:
    "processBlock exampleExt (exampleProcessor 2) [[Fin 1, Fin 2], [Fin 3, Fin 4]] = Inr (p', buffer')"
    "update buffer' (leftChannelFifo (exampleProcessor 2)) = Inr (leftChannelFifo p')"
    "update buffer' (rightChannelFifo (exampleProcessor 2)) = Inr (rightChannelFifo p')"
    by blast
  have "length (fifoBuffers (audioBufferFifo (leftChannelFifo p'))) = 1"
    using r(2) [symmetric] by (auto simp: update_def push_def exampleProcessor_def split: if_splits)
  moreover have "length (fifoBuffers (audioBufferFifo (rightChannelFifo p'))) = 1"
    using r(3) [symmetric] by (auto simp: update_def push_def exampleProcessor_def split: if_splits)
  ultimately show ?thesis using h e r(1) by blast
qed

subsection \<open>Spectrum frames\<close>

lemma forEachBin_eq:
  "n \<le> length d \<Longrightarrow> forEachBin n f d = map f (take n d) @ drop n d"
proof (induction n)
  case 0
  then show ?case by simp
next
  case (Suc n)
  then have n: "n < length d" by simp
  have ih: "forEachBin n f d = map f (take n d) @ drop n d" using Suc by simp
  have nth: "(map f (take n d) @ drop n d) ! n = d ! n"
    using n by (simp add: nth_append)
  have upd: "(map f (take n d) @ drop n d)[n := v] = map f (take n d) @ v # drop (Suc n) d" for v
    using n by (simp add: list_update_append Cons_nth_drop_Suc [symmetric])
  show ?case
    using n by (simp add: Let_def ih nth upd take_Suc_conv_app_nth)
qed

lemma gainToDecibels_finite:
  "gainToDecibels (Fin a) (Fin fl) = Fin (if 0 < a then max fl (log 10 a * 20) else fl)"
  by (simp add: gainToDecibels_def jmax_def max_def)

lemma gainToDecibels_floor:
  "gainToDecibels v (Fin fl) = PInf \<or> (\<exists>r. gainToDecibels v (Fin fl) = Fin r \<and> fl \<le> r)"
  by (cases v) (auto simp: gainToDecibels_def jmax_def infOfSign_def)

lemma produceFFTData_run:
  assumes N: "N = getFFTSize g"
    and a: "N \<le> length audioData"
    and d: "N \<le> length (fftData g)"
    and sp: "spectrum = performFrequencyOnlyForwardTransform J (fftOrder g)
               (multiplyWithWindowingTable J N
                  (take N audioData @ replicate (length (fftData g) - N) (Fin 0)))"
    and l: "N div 2 \<le> length spectrum"
    and fr: "frame = map (\<lambda>m. gainToDecibels (fdiv m (Fin (real (N div 2)))) negativeInfinity)
                       (take (N div 2) spectrum) @ drop (N div 2) spectrum"
  shows "produceFFTDataForRendering J audioData negativeInfinity g =
           Inr (g\<lparr>fftData := frame, fftDataFifo := snd (push frame (fftDataFifo g))\<rparr>)"
proof -
  let ?f1 = "\<lambda>v. fdiv v (Fin (real (N div 2)))"
  let ?f2 = "\<lambda>v. gainToDecibels v negativeInfinity"
  let ?d4 = "map ?f1 (take (N div 2) spectrum) @ drop (N div 2) spectrum"
  have s1: "forEachBin (N div 2) ?f1 spectrum = ?d4"
    by (rule forEachBin_eq [OF l])
  have l4: "N div 2 \<le> length ?d4" using l by simp
  have s2: "forEachBin (N div 2) ?f2 ?d4 = map ?f2 (take (N div 2) ?d4) @ drop (N div 2) ?d4"
    by (rule forEachBin_eq [OF l4])
  have s3: "map ?f2 (take (N div 2) ?d4) @ drop (N div 2) ?d4 = frame"
    using l by (simp add: fr)
  have "forEachBin (N div 2) ?f2 (forEachBin (N div 2) ?f1 spectrum) = frame"
    by (simp only: s1 s2 s3)
  then show ?thesis
    using a d l
    by (simp add: produceFFTDataForRendering_def Let_def N [symmetric] sp [symmetric])
qed


text \<open>One round of the sample loop: the window is shifted by the block and a frame is produced
  from it with the floor -48.\<close>

lemma sampleLoop_step:
  assumes "fifoBuffers (audioBufferFifo fifo) = b # rest"
    and "length b \<le> length (monoBuffer pp)"
  shows "sampleLoop J (fifo, pp) =
           (case produceFFTDataForRendering J (drop (length b) (monoBuffer pp) @ b) (Fin (- 48))
                   (leftChannelFFTDataGenerator pp) of
              Inl e \<Rightarrow> Inl e
            | Inr g \<Rightarrow>
                sampleLoop J
                  (fifo\<lparr>audioBufferFifo := (audioBufferFifo fifo)\<lparr>fifoBuffers := rest\<rparr>\<rparr>,
                   pp\<lparr>monoBuffer := drop (length b) (monoBuffer pp) @ b,
                      leftChannelFFTDataGenerator := g\<rparr>))"
  using assms
  by (subst sampleLoop.simps)
     (simp add: getNumCompleteBuffersAvailable_def getNumAvailableForReading_def
        getAudioBuffer_def pull_def Let_def)

text \<open>
  C6: for a window of \<open>N = 2 ^ order\<close> samples, \<^verbatim>\<open>produceFFTDataForRendering\<close> with the
  floor -48 that \<^verbatim>\<open>PathProducer::process\<close> passes returns, and each of the first \<open>N / 2\<close>
  entries of the frame is the entry of the frequency-only transform of the windowed copy,
  divided by \<open>N / 2\<close> and converted by \<^verbatim>\<open>gainToDecibels\<close> with the floor -48: a finite
  magnitude \<open>a\<close> gives \<open>max (-48) (20 log10 (a / (N / 2)))\<close>, and -48 when it is not
  positive, so no bin is below -48.  The entries from \<open>N / 2\<close> on are those the transform
  left.  The frame is pushed into the frame queue, which appends it unless the queue is
  full.
\<close>

theorem produceFFTData_normalised_decibel_bins:
  assumes "N = getFFTSize g"
    and "N \<le> length audioData"
    and "N \<le> length (fftData g)"
    and "spectrum = performFrequencyOnlyForwardTransform J (fftOrder g)
           (multiplyWithWindowingTable J N
              (take N audioData @ replicate (length (fftData g) - N) (Fin 0)))"
    and "N div 2 \<le> length spectrum"
  shows "N = 2 ^ fftOrder g
         \<and> (\<exists>g'. produceFFTDataForRendering J audioData (Fin (- 48)) g = Inr g'
              \<and> take (N div 2) (fftData g') =
                  map (\<lambda>m. gainToDecibels (fdiv m (Fin (real (N div 2)))) (Fin (- 48)))
                    (take (N div 2) spectrum)
              \<and> (\<forall>i a. i < N div 2 \<and> spectrum ! i = Fin a \<longrightarrow>
                    fftData g' ! i =
                      Fin (if 0 < a then max (- 48) (log 10 (a / real (N div 2)) * 20) else - 48))
              \<and> (\<forall>i. i < N div 2 \<longrightarrow>
                    fftData g' ! i = PInf \<or> (\<exists>r. fftData g' ! i = Fin r \<and> - 48 \<le> r))
              \<and> drop (N div 2) (fftData g') = drop (N div 2) spectrum
              \<and> fftDataFifo g' = snd (push (fftData g') (fftDataFifo g))
              \<and> (length (fifoBuffers (fftDataFifo g)) < fifoCapacity (fftDataFifo g) \<longrightarrow>
                    fifoBuffers (fftDataFifo g') = fifoBuffers (fftDataFifo g) @ [fftData g']))"
proof -
  let ?nb = "N div 2"
  let ?conv = "\<lambda>m. gainToDecibels (fdiv m (Fin (real ?nb))) (Fin (- 48))"
  define frame where "frame = map ?conv (take ?nb spectrum) @ drop ?nb spectrum"
  define g' where "g' = g\<lparr>fftData := frame, fftDataFifo := snd (push frame (fftDataFifo g))\<rparr>"
  have run: "produceFFTDataForRendering J audioData (Fin (- 48)) g = Inr g'"
    unfolding g'_def by (rule produceFFTData_run [OF assms frame_def])
  have fd: "fftData g' = frame" by (simp add: g'_def)
  have tk: "take ?nb frame = map ?conv (take ?nb spectrum)"
    using assms(5) by (simp add: frame_def)
  have dr: "drop ?nb frame = drop ?nb spectrum"
    using assms(5) by (simp add: frame_def)
  have nth: "frame ! i = ?conv (spectrum ! i)" if "i < ?nb" for i
    using that assms(5) by (simp add: frame_def nth_append)
  have fin: "frame ! i = Fin (if 0 < a then max (- 48) (log 10 (a / real ?nb) * 20) else - 48)"
    if "i < ?nb" "spectrum ! i = Fin a" for i a
  proof -
    have "0 < real ?nb" using that(1) by simp
    then show ?thesis
      using that by (simp add: nth gainToDecibels_finite zero_less_divide_iff)
  qed
  have fl: "frame ! i = PInf \<or> (\<exists>r. frame ! i = Fin r \<and> - 48 \<le> r)" if "i < ?nb" for i
    using gainToDecibels_floor [of "fdiv (spectrum ! i) (Fin (real ?nb))" "- 48"] that
    by (simp add: nth)
  have q: "fftDataFifo g' = snd (push frame (fftDataFifo g))" by (simp add: g'_def)
  have q2: "fifoBuffers (fftDataFifo g') = fifoBuffers (fftDataFifo g) @ [frame]"
    if "length (fifoBuffers (fftDataFifo g)) < fifoCapacity (fftDataFifo g)"
    using that by (simp add: q push_def)
  have "N = 2 ^ fftOrder g" using assms(1) by (simp add: getFFTSize_def)
  then show ?thesis
    using run tk dr fin fl q q2 unfolding fd [symmetric] by blast
qed

theorem produceFFTData_normalised_decibel_bins_witness:
  "(4::nat) = getFFTSize (exampleGenerator [])
   \<and> 4 \<le> length [Fin 4, Fin 0, Fin 0, Fin 0]
   \<and> 4 \<le> length (fftData (exampleGenerator []))
   \<and> 4 div 2 \<le> length [Fin 4, Fin 0, Fin 0, Fin 0, Fin 0, Fin 0, Fin 0, Fin 0 :: fval]
   \<and> (\<exists>g'. produceFFTDataForRendering exampleExt [Fin 4, Fin 0, Fin 0, Fin 0] (Fin (- 48))
              (exampleGenerator []) = Inr g'
          \<and> fftData g' ! 0 = Fin (max (- 48) (log 10 (4 / 2) * 20))
          \<and> fftData g' ! 1 = Fin (- 48)
          \<and> fifoBuffers (fftDataFifo g') = [fftData g'])"
proof -
  have h1: "(4::nat) = getFFTSize (exampleGenerator [])"
    by (simp add: getFFTSize_def exampleGenerator_def)
  have h2: "4 \<le> length [Fin 4, Fin 0, Fin 0, Fin 0]" by simp
  have h3: "4 \<le> length (fftData (exampleGenerator []))"
    by (simp add: exampleGenerator_def)
  have h4: "[Fin 4, Fin 0, Fin 0, Fin 0, Fin 0, Fin 0, Fin 0, Fin 0] =
      performFrequencyOnlyForwardTransform exampleExt (fftOrder (exampleGenerator []))
        (multiplyWithWindowingTable exampleExt 4
           (take 4 [Fin 4, Fin 0, Fin 0, Fin 0] @
            replicate (length (fftData (exampleGenerator [])) - 4) (Fin 0)))"
    by (simp add: exampleExt_def exampleGenerator_def numeral_eq_Suc)
  have h5: "4 div 2 \<le> length [Fin 4, Fin 0, Fin 0, Fin 0, Fin 0, Fin 0, Fin 0, Fin 0 :: fval]"
    by simp
  have e: "fifoBuffers (fftDataFifo (exampleGenerator [])) = []"
    "fifoCapacity (fftDataFifo (exampleGenerator [])) = 2"
    by (simp_all add: exampleGenerator_def)
  from produceFFTData_normalised_decibel_bins [OF h1 h2 h3 h4 h5]
  obtain g' where r:
    "produceFFTDataForRendering exampleExt [Fin 4, Fin 0, Fin 0, Fin 0] (Fin (- 48))
       (exampleGenerator []) = Inr g'"
    "\<forall>i a. i < 4 div 2 \<and> [Fin 4, Fin 0, Fin 0, Fin 0, Fin 0, Fin 0, Fin 0, Fin 0] ! i = Fin a \<longrightarrow>
        fftData g' ! i =
          Fin (if 0 < a then max (- 48) (log 10 (a / real (4 div 2)) * 20) else - 48)"
    "length (fifoBuffers (fftDataFifo (exampleGenerator []))) < fifoCapacity (fftDataFifo (exampleGenerator [])) \<longrightarrow>
        fifoBuffers (fftDataFifo g') = fifoBuffers (fftDataFifo (exampleGenerator [])) @ [fftData g']"
    by blast
  have b0: "fftData g' ! 0 = Fin (max (- 48) (log 10 (4 / 2) * 20))"
    using r(2) [rule_format, of 0 4] by simp
  have b1: "fftData g' ! 1 = Fin (- 48)"
    using r(2) [rule_format, of 1 0] by simp
  have q: "fifoBuffers (fftDataFifo g') = [fftData g']"
    using r(3) by (simp add: e)
  show ?thesis using h1 h2 h3 h5 r(1) b0 b1 q by blast
qed

subsection \<open>Analyser paths\<close>

lemma log_thousand: "log 10 (1000::real) = 3"
proof -
  have "log 10 ((10::real) ^ 3) = real 3"
    by (rule log_pow_cancel) simp_all
  then show ?thesis by simp
qed

lemma log_range: "log 10 20000 - log 10 20 = (3::real)"
  using log_divide_pos [of 20000 20 10] log_thousand by simp

lemma binXOf_eq:
  assumes "rectW fftBounds = Fin w" and "0 < bw" and "0 < k"
  shows "binXOf fftBounds (Fin bw) k = Some (spec_binX w bw k)"
proof -
  have f: "0 < real k * bw" using assms by simp
  have l: "log 10 (real k * bw / 20) = log 10 (real k * bw) - log 10 20"
    using log_divide_pos [OF f, of 20 10] by simp
  have n: "mapFromLog10 (Fin (real k * bw)) (Fin 20) (Fin 20000) =
      Fin ((log 10 (real k * bw) - log 10 20) / 3)"
    using f by (simp add: mapFromLog10_def Let_def fsub_def log_range)
  have "binXOf fftBounds (Fin bw) k = Some \<lfloor>(log 10 (real k * bw) - log 10 20) / 3 * w\<rfloor>"
    using assms(1) by (simp add: binXOf_def Let_def n)
  also have "(log 10 (real k * bw) - log 10 20) / 3 * w =
      w * (log 10 (real k * bw / 20) / log 10 (20000 / 20))"
    by (simp add: l log_thousand)
  finally show ?thesis by (simp add: spec_binX_def)
qed

lemma spec_binX_below_range:
  assumes "0 < w" and "0 < bw" and "0 < k" and "real k * bw < 20"
  shows "spec_binX w bw k < 0"
proof -
  have f: "0 < real k * bw / 20" "real k * bw / 20 < 1" using assms by simp_all
  have "log 10 (real k * bw / 20) < 0"
    using f by simp
  then have "w * (log 10 (real k * bw / 20) / log 10 (20000 / 20)) < 0"
    using assms(1) by (simp add: log_thousand mult_less_0_iff)
  then show ?thesis by (simp add: spec_binX_def floor_less_iff)
qed


lemma visited_unfold:
  assumes "k < n"
  shows "map (\<lambda>j. k + 2 * j) [0..<(n + 1 - k) div 2] =
           k # map (\<lambda>j. (k + 2) + 2 * j) [0..<(n + 1 - (k + 2)) div 2]"
proof -
  have m: "(n + 1 - k) div 2 = Suc ((n + 1 - (k + 2)) div 2)"
    using assms by presburger
  have "[0..<Suc m] = 0 # map Suc [0..<m]" for m
    by (simp add: upt_conv_Cons map_Suc_upt del: upt_Suc)
  then show ?thesis
    unfolding m by (simp add: o_def del: upt_Suc)
qed

lemma visited_done:
  assumes "\<not> k < n" and "0 < k"
  shows "map (\<lambda>j. k + 2 * j) [0..<(n + 1 - k) div 2] = []"
proof -
  have "(n + 1 - k) div 2 = 0" using assms by presburger
  then show ?thesis by simp
qed

lemma generatePathLoop_eq:
  assumes "rectW fftBounds = Fin w" and "0 < bw" and "binWidth = Fin bw"
    and "0 < binNum" and "numBins \<le> length renderData"
  shows "generatePathLoop renderData fftBounds numBins binWidth negativeInfinity binNum p =
           Inr (p @ concat (map (spec_segment renderData fftBounds w bw negativeInfinity)
                              (map (\<lambda>j. binNum + 2 * j) [0..<(numBins + 1 - binNum) div 2])))"
  using assms
proof (induction renderData fftBounds numBins binWidth negativeInfinity binNum p
        rule: generatePathLoop.induct)
  case (1 renderData fftBounds numBins binWidth negativeInfinity binNum p)
  let ?y = "mapToBounds fftBounds negativeInfinity (renderData ! binNum)"
  show ?case
  proof (cases "binNum < numBins")
    case False
    then show ?thesis
      using "1.prems" by (subst generatePathLoop.simps) (simp add: visited_done)
  next
    case True
    then have inr: "binNum < length renderData" using "1.prems" by simp
    have x: "binXOf fftBounds binWidth binNum = Some (spec_binX w bw binNum)"
      using "1.prems" by (simp add: binXOf_eq)
    show ?thesis
    proof (cases "\<not> isnan ?y \<and> \<not> isinf ?y")
      case fin: True
      have seg: "spec_segment renderData fftBounds w bw negativeInfinity binNum =
          [LineTo (Fin (of_int (spec_binX w bw binNum))) ?y]"
        using fin by (simp add: spec_segment_def mapToBounds_def Let_def)
      have ih: "generatePathLoop renderData fftBounds numBins binWidth negativeInfinity (binNum + 2)
            (p @ [LineTo (Fin (of_int (spec_binX w bw binNum))) ?y]) =
          Inr ((p @ [LineTo (Fin (of_int (spec_binX w bw binNum))) ?y]) @
               concat (map (spec_segment renderData fftBounds w bw negativeInfinity)
                         (map (\<lambda>j. (binNum + 2) + 2 * j) [0..<(numBins + 1 - (binNum + 2)) div 2])))"
        using "1.IH"(1) [OF True inr refl fin x] "1.prems" by simp
      have step: "generatePathLoop renderData fftBounds numBins binWidth negativeInfinity binNum p =
          generatePathLoop renderData fftBounds numBins binWidth negativeInfinity (binNum + 2)
            (p @ [LineTo (Fin (of_int (spec_binX w bw binNum))) ?y])"
        using True inr fin x by (subst generatePathLoop.simps) (simp add: Let_def)
      show ?thesis
        by (subst step, subst ih, subst visited_unfold [OF True]) (simp add: seg)
    next
      case nonfin: False
      have seg: "spec_segment renderData fftBounds w bw negativeInfinity binNum = []"
        using nonfin by (auto simp: spec_segment_def mapToBounds_def Let_def)
      have ih: "generatePathLoop renderData fftBounds numBins binWidth negativeInfinity (binNum + 2) p =
          Inr (p @
               concat (map (spec_segment renderData fftBounds w bw negativeInfinity)
                         (map (\<lambda>j. (binNum + 2) + 2 * j) [0..<(numBins + 1 - (binNum + 2)) div 2])))"
        using "1.IH"(2) [OF True inr refl nonfin] "1.prems" by simp
      have step: "generatePathLoop renderData fftBounds numBins binWidth negativeInfinity binNum p =
          generatePathLoop renderData fftBounds numBins binWidth negativeInfinity (binNum + 2) p"
        using True inr nonfin by (subst generatePathLoop.simps) (auto simp: Let_def)
      show ?thesis
        by (subst step, subst ih, subst visited_unfold [OF True]) (simp add: seg)
    qed
  qed
qed

lemma buildPath_eq:
  assumes "rectW fftBounds = Fin w" and "0 < bw"
    and "0 < length renderData" and "fftSize div 2 \<le> length renderData"
  shows "buildPath renderData fftBounds fftSize (Fin bw) negativeInfinity =
           Inr (spec_path renderData fftBounds fftSize w bw negativeInfinity)"
proof -
  have v: "map (\<lambda>j. 1 + 2 * j) [0..<(fftSize div 2 + 1 - 1) div 2] = spec_visitedBins (fftSize div 2)"
    by (simp add: spec_visitedBins_def)
  show ?thesis
    using assms
    by (simp add: buildPath_def Let_def generatePathLoop_eq [OF assms(1,2) refl _ assms(4)]
          spec_path_def mapToBounds_def del: One_nat_def)
       (simp add: spec_visitedBins_def)
qed


lemma spec_visitedBins_odd: "spec_visitedBins n = filter odd [0..<n]"
proof (induction n)
  case 0
  then show ?case by (simp add: spec_visitedBins_def)
next
  case (Suc n)
  show ?case
  proof (cases "odd n")
    case True
    then have "Suc n div 2 = Suc (n div 2)" "2 * (n div 2) + 1 = n"
      by presburger+
    then show ?thesis
      using Suc True by (simp add: spec_visitedBins_def)
  next
    case False
    then have "Suc n div 2 = n div 2" by presburger
    then show ?thesis
      using Suc False by (simp add: spec_visitedBins_def)
  qed
qed

text \<open>
  C7, as amended: on a frame that holds the bins and for a positive bin width,
  \<^verbatim>\<open>generatePath\<close> returns and pushes the path that starts at x = 0 and visits the bins
  1, 3, 5 and so on; a visited bin whose mapped value is NaN or infinite adds nothing, and
  every other visited bin adds a line to the x coordinate of its frequency on the log10
  axis from 20 Hz to 20 kHz.  A bin below 20 Hz is not skipped: its x coordinate is
  negative.
\<close>

theorem generatePath_skips_only_non_finite_bins:
  assumes "rectW fftBounds = Fin w" and "0 < bw"
    and "0 < length renderData" and "fftSize div 2 \<le> length renderData"
  shows "generatePath renderData fftBounds fftSize (Fin bw) negativeInfinity pg =
           Inr (pg\<lparr>pathFifo :=
                  snd (push (spec_path renderData fftBounds fftSize w bw negativeInfinity) (pathFifo pg))\<rparr>)
         \<and> spec_visitedBins (fftSize div 2) = filter odd [0..<fftSize div 2]
         \<and> (\<forall>k. isnan (mapToBounds fftBounds negativeInfinity (renderData ! k))
                  \<or> isinf (mapToBounds fftBounds negativeInfinity (renderData ! k)) \<longrightarrow>
                spec_segment renderData fftBounds w bw negativeInfinity k = [])
         \<and> (\<forall>k. \<not> isnan (mapToBounds fftBounds negativeInfinity (renderData ! k))
                  \<and> \<not> isinf (mapToBounds fftBounds negativeInfinity (renderData ! k)) \<longrightarrow>
                spec_segment renderData fftBounds w bw negativeInfinity k =
                  [LineTo (Fin (of_int \<lfloor>w * (log 10 (real k * bw / 20) / log 10 (20000 / 20))\<rfloor>))
                     (mapToBounds fftBounds negativeInfinity (renderData ! k))])
         \<and> (\<forall>k. 0 < k \<and> real k * bw < 20 \<and> 0 < w \<longrightarrow>
                \<lfloor>w * (log 10 (real k * bw / 20) / log 10 (20000 / 20))\<rfloor> < 0)"
proof -
  have run: "generatePath renderData fftBounds fftSize (Fin bw) negativeInfinity pg =
           Inr (pg\<lparr>pathFifo :=
                  snd (push (spec_path renderData fftBounds fftSize w bw negativeInfinity) (pathFifo pg))\<rparr>)"
    by (simp add: generatePath_def buildPath_eq [OF assms])
  have skip: "spec_segment renderData fftBounds w bw negativeInfinity k = []"
    if "isnan (mapToBounds fftBounds negativeInfinity (renderData ! k))
          \<or> isinf (mapToBounds fftBounds negativeInfinity (renderData ! k))" for k
    using that by (auto simp: spec_segment_def mapToBounds_def Let_def)
  have line: "spec_segment renderData fftBounds w bw negativeInfinity k =
                  [LineTo (Fin (of_int \<lfloor>w * (log 10 (real k * bw / 20) / log 10 (20000 / 20))\<rfloor>))
                     (mapToBounds fftBounds negativeInfinity (renderData ! k))]"
    if "\<not> isnan (mapToBounds fftBounds negativeInfinity (renderData ! k))
          \<and> \<not> isinf (mapToBounds fftBounds negativeInfinity (renderData ! k))" for k
    using that by (simp add: spec_segment_def mapToBounds_def Let_def spec_binX_def)
  have neg: "\<lfloor>w * (log 10 (real k * bw / 20) / log 10 (20000 / 20))\<rfloor> < 0"
    if "0 < k \<and> real k * bw < 20 \<and> 0 < w" for k
    using spec_binX_below_range [of w bw k] that assms(2) by (simp add: spec_binX_def)
  show ?thesis
    using run spec_visitedBins_odd [of "fftSize div 2"] skip line neg by blast
qed

lemma example_path:
  "buildPath [Fin 0, Fin (- 24), Fin 0, NaN] exampleBounds 8 (Fin 10) (Fin (- 48)) =
     Inr [StartNewSubPath (Fin 0) (Fin 0), LineTo (Fin (of_int (spec_binX 100 10 1))) (Fin 50)]"
proof -
  have b: "rectW exampleBounds = Fin 100" by (simp add: exampleBounds_def)
  have v: "spec_visitedBins 4 = [Suc 0, 3]"
    by (simp add: spec_visitedBins_def upt_rec)
  have s1: "spec_segment [Fin 0, Fin (- 24), Fin 0, NaN] exampleBounds 100 10 (Fin (- 48)) (Suc 0) =
      [LineTo (Fin (of_int (spec_binX 100 10 (Suc 0)))) (Fin 50)]"
    by (simp add: spec_segment_def exampleBounds_def jmap_def fsub_def isnan_def isinf_def Let_def)
  have s3: "spec_segment [Fin 0, Fin (- 24), Fin 0, NaN] exampleBounds 100 10 (Fin (- 48)) 3 = []"
    by (simp add: spec_segment_def exampleBounds_def jmap_def fsub_def isnan_def isinf_def Let_def)
  have y0: "jmap (Fin 0) (Fin (- 48)) (Fin 0) (rectH exampleBounds) (rectY exampleBounds) = Fin 0"
    by (simp add: exampleBounds_def jmap_def fsub_def)
  have "buildPath [Fin 0, Fin (- 24), Fin 0, NaN] exampleBounds 8 (Fin 10) (Fin (- 48)) =
      Inr (spec_path [Fin 0, Fin (- 24), Fin 0, NaN] exampleBounds 8 100 10 (Fin (- 48)))"
    by (rule buildPath_eq [OF b]) simp_all
  then show ?thesis
    by (simp add: spec_path_def v s1 s3 y0)
qed

theorem generatePath_skips_only_non_finite_bins_witness:
  "rectW exampleBounds = Fin 100 \<and> (0::real) < 10
   \<and> 0 < length [Fin 0, Fin (- 24), Fin 0, NaN] \<and> 8 div 2 \<le> length [Fin 0, Fin (- 24), Fin 0, NaN]
   \<and> generatePath [Fin 0, Fin (- 24), Fin 0, NaN] exampleBounds 8 (Fin 10) (Fin (- 48))
        \<lparr> pathFifo = \<lparr> fifoCapacity = 2, fifoBuffers = [] \<rparr> \<rparr> =
       Inr \<lparr> pathFifo = \<lparr> fifoCapacity = 2, fifoBuffers =
              [[StartNewSubPath (Fin 0) (Fin 0),
                LineTo (Fin (of_int \<lfloor>100 * (log 10 (real 1 * 10 / 20) / log 10 (20000 / 20))\<rfloor>)) (Fin 50)]] \<rparr> \<rparr>
   \<and> \<lfloor>100 * (log 10 (real 1 * 10 / 20) / log 10 (20000 / 20))\<rfloor> < (0::int)"
proof -
  have h: "rectW exampleBounds = Fin 100" "(0::real) < 10"
    "0 < length [Fin 0, Fin (- 24), Fin 0, NaN]" "8 div 2 \<le> length [Fin 0, Fin (- 24), Fin 0, NaN]"
    by (simp_all add: exampleBounds_def)
  have p: "spec_path [Fin 0, Fin (- 24), Fin 0, NaN] exampleBounds 8 100 10 (Fin (- 48)) =
      [StartNewSubPath (Fin 0) (Fin 0),
       LineTo (Fin (of_int \<lfloor>100 * (log 10 (real 1 * 10 / 20) / log 10 (20000 / 20))\<rfloor>)) (Fin 50)]"
    using example_path buildPath_eq [OF h, of "Fin (- 48)"] by (simp add: spec_binX_def)
  note t = generatePath_skips_only_non_finite_bins
      [OF h, of "Fin (- 48)" "\<lparr> pathFifo = \<lparr> fifoCapacity = 2, fifoBuffers = [] \<rparr> \<rparr>"]
  have run: "generatePath [Fin 0, Fin (- 24), Fin 0, NaN] exampleBounds 8 (Fin 10) (Fin (- 48))
        \<lparr> pathFifo = \<lparr> fifoCapacity = 2, fifoBuffers = [] \<rparr> \<rparr> =
       Inr \<lparr> pathFifo = \<lparr> fifoCapacity = 2, fifoBuffers =
              [[StartNewSubPath (Fin 0) (Fin 0),
                LineTo (Fin (of_int \<lfloor>100 * (log 10 (real 1 * 10 / 20) / log 10 (20000 / 20))\<rfloor>)) (Fin 50)]] \<rparr> \<rparr>"
    using t unfolding p by (simp add: push_def)
  have "\<forall>k. 0 < k \<and> real k * 10 < 20 \<and> (0::real) < 100 \<longrightarrow>
          \<lfloor>100 * (log 10 (real k * 10 / 20) / log 10 (20000 / 20))\<rfloor> < 0"
    using t by blast
  from this [rule_format, of 1]
  have neg: "\<lfloor>100 * (log 10 (real 1 * 10 / 20) / log 10 (20000 / 20))\<rfloor> < (0::int)"
    by simp
  show ?thesis using h run neg by blast
qed

text \<open>
  C7, as stated, fails: with a bin width of 10 Hz, bin 1 lies below 20 Hz and the path
  has a line to it (bin 3, whose value is NaN, is skipped).
\<close>

theorem bin_below_20Hz_is_drawn_counterexample:
  "real 1 * 10 < 20
   \<and> buildPath [Fin 0, Fin (- 24), Fin 0, NaN] exampleBounds 8 (Fin 10) (Fin (- 48)) =
       Inr [StartNewSubPath (Fin 0) (Fin 0),
            LineTo (Fin (of_int \<lfloor>100 * (log 10 (real 1 * 10 / 20) / log 10 (20000 / 20))\<rfloor>)) (Fin 50)]"
  using example_path by (simp add: spec_binX_def)

subsection \<open>The path queue\<close>

lemma drainLoop_eq:
  "queuedPaths (drainLoop pp) = []
   \<and> leftChannelFFTPath (drainLoop pp) =
       (if queuedPaths pp = [] then leftChannelFFTPath pp else last (queuedPaths pp))
   \<and> pathCapacity (drainLoop pp) = pathCapacity pp
   \<and> monoBuffer (drainLoop pp) = monoBuffer pp
   \<and> leftChannelFFTDataGenerator (drainLoop pp) = leftChannelFFTDataGenerator pp"
proof (induction pp rule: drainLoop.induct)
  case (1 pp)
  show ?case
  proof (cases "fifoBuffers (pathFifo (pathProducer pp))")
    case Nil
    then show ?thesis
      by (subst (1 2 3 4 5) drainLoop.simps)
         (simp add: getNumPathsAvailable_def getNumAvailableForReading_def queuedPaths_def)
  next
    case (Cons x rest)
    let ?pg = "(pathProducer pp)\<lparr>pathFifo := (pathFifo (pathProducer pp))\<lparr>fifoBuffers := rest\<rparr>\<rparr>"
    let ?pp = "pp\<lparr>pathProducer := ?pg, leftChannelFFTPath := x\<rparr>"
    have n: "getNumPathsAvailable (pathProducer pp) \<noteq> 0"
      using Cons by (simp add: getNumPathsAvailable_def getNumAvailableForReading_def)
    have g: "getPath (pathProducer pp) = Some (x, ?pg)"
      using Cons by (simp add: getPath_def pull_def)
    have step: "drainLoop pp = drainLoop ?pp"
      using n g by (subst drainLoop.simps) simp
    have ih: "queuedPaths (drainLoop ?pp) = []
      \<and> leftChannelFFTPath (drainLoop ?pp) =
          (if queuedPaths ?pp = [] then leftChannelFFTPath ?pp else last (queuedPaths ?pp))
      \<and> pathCapacity (drainLoop ?pp) = pathCapacity ?pp
      \<and> monoBuffer (drainLoop ?pp) = monoBuffer ?pp
      \<and> leftChannelFFTDataGenerator (drainLoop ?pp) = leftChannelFFTDataGenerator ?pp"
      by (rule "1.IH"(2) [OF n g refl])
    show ?thesis
      unfolding step using ih Cons
      by (simp add: queuedPaths_def pathCapacity_def)
  qed
qed


lemma pathLoop_eq:
  assumes "pathLoop fftBounds fftSize binWidth pp = Inr pp'"
    and "length (queuedPaths pp) + length (queuedFrames pp) \<le> pathCapacity pp"
  shows "\<exists>paths.
           list_all2 (\<lambda>frame path. buildPath frame fftBounds fftSize binWidth (Fin (- 48)) = Inr path)
             (queuedFrames pp) paths
           \<and> queuedPaths pp' = queuedPaths pp @ paths
           \<and> queuedFrames pp' = []
           \<and> pathCapacity pp' = pathCapacity pp
           \<and> leftChannelFFTPath pp' = leftChannelFFTPath pp"
  using assms
proof (induction fftBounds fftSize binWidth pp rule: pathLoop.induct)
  case (1 fftBounds fftSize binWidth pp)
  let ?g = "leftChannelFFTDataGenerator pp"
  show ?case
  proof (cases "fifoBuffers (fftDataFifo ?g)")
    case Nil
    then have "pp' = pp"
      using "1.prems"(1)
      by (subst (asm) pathLoop.simps)
         (simp add: getNumAvailableFFTDataBlocks_def getNumAvailableForReading_def)
    then show ?thesis using Nil by (simp add: queuedFrames_def)
  next
    case (Cons frame rest)
    let ?g1 = "?g\<lparr>fftDataFifo := (fftDataFifo ?g)\<lparr>fifoBuffers := rest\<rparr>\<rparr>"
    have n: "getNumAvailableFFTDataBlocks ?g > 0"
      using Cons by (simp add: getNumAvailableFFTDataBlocks_def getNumAvailableForReading_def)
    have gd: "getFFTData ?g = Some (frame, ?g1)"
      using Cons by (simp add: getFFTData_def pull_def)
    obtain pg where gp: "generatePath frame fftBounds fftSize binWidth (Fin (- 48)) (pathProducer pp) = Inr pg"
      and rec: "pathLoop fftBounds fftSize binWidth
                  (pp\<lparr>leftChannelFFTDataGenerator := ?g1, pathProducer := pg\<rparr>) = Inr pp'"
      using "1.prems"(1) n gd
      by (subst (asm) pathLoop.simps) (auto split: sum.splits)
    obtain path where bp: "buildPath frame fftBounds fftSize binWidth (Fin (- 48)) = Inr path"
      and pg: "pg = (pathProducer pp)\<lparr>pathFifo := snd (push path (pathFifo (pathProducer pp)))\<rparr>"
      using gp by (auto simp: generatePath_def split: sum.splits)
    have room: "length (fifoBuffers (pathFifo (pathProducer pp))) < fifoCapacity (pathFifo (pathProducer pp))"
      using "1.prems"(2) Cons by (simp add: queuedPaths_def queuedFrames_def pathCapacity_def)
    let ?pp1 = "pp\<lparr>leftChannelFFTDataGenerator := ?g1, pathProducer := pg\<rparr>"
    have q1: "queuedPaths ?pp1 = queuedPaths pp @ [path]" "queuedFrames ?pp1 = rest"
      "pathCapacity ?pp1 = pathCapacity pp" "leftChannelFFTPath ?pp1 = leftChannelFFTPath pp"
      using room by (simp_all add: queuedPaths_def queuedFrames_def pathCapacity_def pg push_def)
    have room1: "length (queuedPaths ?pp1) + length (queuedFrames ?pp1) \<le> pathCapacity ?pp1"
      using "1.prems"(2) Cons unfolding q1 by (simp add: queuedFrames_def)
    from "1.IH"(2) [OF n gd refl gp rec room1]
    obtain paths where ih:
      "list_all2 (\<lambda>frame path. buildPath frame fftBounds fftSize binWidth (Fin (- 48)) = Inr path) rest paths"
      "queuedPaths pp' = (queuedPaths pp @ [path]) @ paths"
      "queuedFrames pp' = []" "pathCapacity pp' = pathCapacity pp"
      "leftChannelFFTPath pp' = leftChannelFFTPath pp"
      unfolding q1 by blast
    have "list_all2 (\<lambda>frame path. buildPath frame fftBounds fftSize binWidth (Fin (- 48)) = Inr path)
            (queuedFrames pp) (path # paths)"
      using ih(1) bp Cons by (simp add: queuedFrames_def)
    then show ?thesis using ih by (intro exI [of _ "path # paths"]) simp
  qed
qed

lemma produceFFTData_queue:
  assumes "produceFFTDataForRendering J audioData negativeInfinity g = Inr g'"
  shows "length (fifoBuffers (fftDataFifo g')) \<le> Suc (length (fifoBuffers (fftDataFifo g)))
         \<and> fftOrder g' = fftOrder g"
  using assms
  by (auto simp: produceFFTDataForRendering_def Let_def push_def split: if_splits)

lemma sampleLoop_eq:
  assumes "sampleLoop J s = Inr s'"
  shows "pathProducer (snd s') = pathProducer (snd s)
         \<and> leftChannelFFTPath (snd s') = leftChannelFFTPath (snd s)
         \<and> fftOrder (leftChannelFFTDataGenerator (snd s')) = fftOrder (leftChannelFFTDataGenerator (snd s))
         \<and> fifoBuffers (audioBufferFifo (fst s')) = []
         \<and> length (queuedFrames (snd s')) \<le>
             length (queuedFrames (snd s)) + length (fifoBuffers (audioBufferFifo (fst s)))"
  using assms
proof (induction J s rule: sampleLoop.induct)
  case (1 J fifo pp)
  show ?case
  proof (cases "fifoBuffers (audioBufferFifo fifo)")
    case Nil
    then have "s' = (fifo, pp)"
      using "1.prems"
      by (subst (asm) sampleLoop.simps)
         (simp add: getNumCompleteBuffersAvailable_def getNumAvailableForReading_def)
    then show ?thesis using Nil by simp
  next
    case (Cons b rest)
    let ?fifo1 = "fifo\<lparr>audioBufferFifo := (audioBufferFifo fifo)\<lparr>fifoBuffers := rest\<rparr>\<rparr>"
    let ?mono = "drop (length b) (monoBuffer pp) @ b"
    have n: "getNumCompleteBuffersAvailable fifo > 0"
      using Cons by (simp add: getNumCompleteBuffersAvailable_def getNumAvailableForReading_def)
    have ga: "getAudioBuffer fifo = Some (b, ?fifo1)"
      using Cons by (simp add: getAudioBuffer_def pull_def)
    have len: "\<not> length (monoBuffer pp) < length b"
      using "1.prems" n ga
      by (subst (asm) sampleLoop.simps) (auto simp: Let_def split: if_splits)
    obtain g where pr: "produceFFTDataForRendering J ?mono (Fin (- 48)) (leftChannelFFTDataGenerator pp) = Inr g"
      and rec: "sampleLoop J (?fifo1, pp\<lparr>monoBuffer := ?mono, leftChannelFFTDataGenerator := g\<rparr>) = Inr s'"
      using "1.prems" n ga len
      by (subst (asm) sampleLoop.simps) (auto simp: Let_def split: sum.splits)
    note ih = "1.IH"(2) [OF n ga refl refl len refl pr rec]
    show ?thesis
      using ih produceFFTData_queue [OF pr] Cons
      by (simp add: queuedFrames_def)
  qed
qed


text \<open>
  C8: when \<^verbatim>\<open>PathProducer::process\<close> returns, the path queue is empty.  When the path
  queue has room for what is waiting (its paths, the frames of the frame queue and one
  frame per block of the sample queue), a path is generated from every frame waiting
  after the sample loop, and the path \<^verbatim>\<open>getPath\<close> returns, \<open>leftChannelFFTPath\<close>, is the
  last of the paths queued and generated, the most recently generated one; with no path
  queued or generated it is the path shown before.  The drain loop alone empties the
  queue and keeps the last path it held.
\<close>

theorem process_keeps_latest_path:
  assumes "process J fftBounds sampleRate' (fifo, pp) = Inr (fifo', pp')"
    and "length (queuedPaths pp) + length (queuedFrames pp)
           + length (fifoBuffers (audioBufferFifo fifo)) \<le> pathCapacity pp"
  shows "queuedPaths pp' = []
         \<and> (\<exists>fifo1 pp1 generated.
               sampleLoop J (fifo, pp) = Inr (fifo1, pp1)
               \<and> list_all2
                   (\<lambda>frame path.
                      buildPath frame fftBounds (getFFTSize (leftChannelFFTDataGenerator pp))
                        (fdiv (Fin sampleRate') (Fin (real (getFFTSize (leftChannelFFTDataGenerator pp)))))
                        (Fin (- 48)) = Inr path)
                   (queuedFrames pp1) generated
               \<and> leftChannelFFTPath pp' =
                   (if queuedPaths pp @ generated = [] then leftChannelFFTPath pp
                    else last (queuedPaths pp @ generated)))
         \<and> (\<forall>q. queuedPaths (drainLoop q) = []
                \<and> leftChannelFFTPath (drainLoop q) =
                    (if queuedPaths q = [] then leftChannelFFTPath q else last (queuedPaths q)))"
proof -
  obtain fifo1 pp1 where s: "sampleLoop J (fifo, pp) = Inr (fifo1, pp1)"
    using assms(1) by (auto simp: process_def split: sum.splits)
  let ?N = "getFFTSize (leftChannelFFTDataGenerator pp1)"
  let ?bw = "fdiv (Fin sampleRate') (Fin (real ?N))"
  obtain pp2 where p: "pathLoop fftBounds ?N ?bw pp1 = Inr pp2"
    and r: "fifo' = fifo1" "pp' = drainLoop pp2"
    using assms(1) s by (auto simp: process_def Let_def split: sum.splits)
  have sl: "pathProducer pp1 = pathProducer pp" "leftChannelFFTPath pp1 = leftChannelFFTPath pp"
    "fftOrder (leftChannelFFTDataGenerator pp1) = fftOrder (leftChannelFFTDataGenerator pp)"
    "length (queuedFrames pp1) \<le> length (queuedFrames pp) + length (fifoBuffers (audioBufferFifo fifo))"
    using sampleLoop_eq [OF s] by simp_all
  have N: "?N = getFFTSize (leftChannelFFTDataGenerator pp)"
    using sl(3) by (simp add: getFFTSize_def)
  have q1: "queuedPaths pp1 = queuedPaths pp" "pathCapacity pp1 = pathCapacity pp"
    using sl(1) by (simp_all add: queuedPaths_def pathCapacity_def)
  have room: "length (queuedPaths pp1) + length (queuedFrames pp1) \<le> pathCapacity pp1"
    using assms(2) sl(4) unfolding q1 by simp
  from pathLoop_eq [OF p room]
  obtain generated where g:
    "list_all2 (\<lambda>frame path. buildPath frame fftBounds ?N ?bw (Fin (- 48)) = Inr path)
       (queuedFrames pp1) generated"
    "queuedPaths pp2 = queuedPaths pp @ generated"
    "leftChannelFFTPath pp2 = leftChannelFFTPath pp"
    unfolding q1 sl(2) by blast
  have d: "queuedPaths pp' = []"
    "leftChannelFFTPath pp' =
       (if queuedPaths pp @ generated = [] then leftChannelFFTPath pp
        else last (queuedPaths pp @ generated))"
    using drainLoop_eq [of pp2] g(2,3) by (simp_all add: r)
  have "\<exists>fifo1 pp1 generated.
               sampleLoop J (fifo, pp) = Inr (fifo1, pp1)
               \<and> list_all2
                   (\<lambda>frame path.
                      buildPath frame fftBounds (getFFTSize (leftChannelFFTDataGenerator pp))
                        (fdiv (Fin sampleRate') (Fin (real (getFFTSize (leftChannelFFTDataGenerator pp)))))
                        (Fin (- 48)) = Inr path)
                   (queuedFrames pp1) generated
               \<and> leftChannelFFTPath pp' =
                   (if queuedPaths pp @ generated = [] then leftChannelFFTPath pp
                    else last (queuedPaths pp @ generated))"
    using s g(1) d(2) unfolding N by blast
  then show ?thesis using d(1) drainLoop_eq by blast
qed


lemma example_path_of_frame:
  "buildPath exampleFrame exampleBounds 4 (Fin 10) (Fin (- 48)) = Inr examplePath"
proof -
  have b: "rectW exampleBounds = Fin 100" by (simp add: exampleBounds_def)
  have v: "spec_visitedBins 2 = [Suc 0]"
    by (simp add: spec_visitedBins_def upt_rec)
  have s1: "spec_segment exampleFrame exampleBounds 100 10 (Fin (- 48)) (Suc 0) =
      [LineTo (Fin (of_int (spec_binX 100 10 (Suc 0)))) (Fin 50)]"
    by (simp add: spec_segment_def exampleBounds_def exampleFrame_def jmap_def fsub_def
          isnan_def isinf_def Let_def)
  have y0: "jmap (exampleFrame ! 0) (Fin (- 48)) (Fin 0) (rectH exampleBounds) (rectY exampleBounds) = Fin 0"
    by (simp add: exampleBounds_def exampleFrame_def jmap_def fsub_def)
  have "buildPath exampleFrame exampleBounds 4 (Fin 10) (Fin (- 48)) =
      Inr (spec_path exampleFrame exampleBounds 4 100 10 (Fin (- 48)))"
    by (rule buildPath_eq [OF b]) (simp_all add: exampleFrame_def)
  then show ?thesis
    by (simp add: spec_path_def v s1 y0 examplePath_def spec_binX_def)
qed

lemma example_process:
  "process exampleExt exampleBounds 40
     (exampleSampleFifo [], examplePathProducer [exampleFrame] [[]]) =
   Inr (exampleSampleFifo [], (examplePathProducer [] [])\<lparr>leftChannelFFTPath := examplePath\<rparr>)"
proof -
  have s: "sampleLoop exampleExt (exampleSampleFifo [], examplePathProducer [exampleFrame] [[]]) =
      Inr (exampleSampleFifo [], examplePathProducer [exampleFrame] [[]])"
    by (subst sampleLoop.simps)
       (simp add: exampleSampleFifo_def getNumCompleteBuffersAvailable_def getNumAvailableForReading_def)
  have p1: "pathLoop exampleBounds 4 (Fin 10) (examplePathProducer [exampleFrame] [[]]) =
      pathLoop exampleBounds 4 (Fin 10) (examplePathProducer [] [[], examplePath])"
    by (subst pathLoop.simps)
       (simp add: examplePathProducer_def exampleGenerator_def getNumAvailableFFTDataBlocks_def
          getNumAvailableForReading_def getFFTData_def pull_def generatePath_def
          example_path_of_frame push_def)
  have p2: "pathLoop exampleBounds 4 (Fin 10) (examplePathProducer [] [[], examplePath]) =
      Inr (examplePathProducer [] [[], examplePath])"
    by (subst pathLoop.simps)
       (simp add: examplePathProducer_def exampleGenerator_def getNumAvailableFFTDataBlocks_def
          getNumAvailableForReading_def)
  have d1: "drainLoop (examplePathProducer [] [[], examplePath]) =
      drainLoop ((examplePathProducer [] [examplePath]))"
    by (subst drainLoop.simps)
       (simp add: examplePathProducer_def getNumPathsAvailable_def getNumAvailableForReading_def
          getPath_def pull_def)
  have d2: "drainLoop (examplePathProducer [] [examplePath]) =
      drainLoop ((examplePathProducer [] [])\<lparr>leftChannelFFTPath := examplePath\<rparr>)"
    by (subst drainLoop.simps)
       (simp add: examplePathProducer_def getNumPathsAvailable_def getNumAvailableForReading_def
          getPath_def pull_def)
  have d3: "drainLoop ((examplePathProducer [] [])\<lparr>leftChannelFFTPath := examplePath\<rparr>) =
      (examplePathProducer [] [])\<lparr>leftChannelFFTPath := examplePath\<rparr>"
    by (subst drainLoop.simps)
       (simp add: examplePathProducer_def getNumPathsAvailable_def getNumAvailableForReading_def)
  have N: "getFFTSize (leftChannelFFTDataGenerator (examplePathProducer [exampleFrame] [[]])) = 4"
    by (simp add: examplePathProducer_def exampleGenerator_def getFFTSize_def)
  show ?thesis
    by (simp add: process_def s N Let_def p1 p2 d1 d2 d3)
qed

theorem process_keeps_latest_path_witness:
  "length (queuedPaths (examplePathProducer [exampleFrame] [[]]))
     + length (queuedFrames (examplePathProducer [exampleFrame] [[]]))
     + length (fifoBuffers (audioBufferFifo (exampleSampleFifo [])))
     \<le> pathCapacity (examplePathProducer [exampleFrame] [[]])
   \<and> (\<exists>fifo' pp'.
         process exampleExt exampleBounds 40
           (exampleSampleFifo [], examplePathProducer [exampleFrame] [[]]) = Inr (fifo', pp')
         \<and> queuedPaths pp' = []
         \<and> leftChannelFFTPath pp' = examplePath)"
proof -
  have room: "length (queuedPaths (examplePathProducer [exampleFrame] [[]]))
     + length (queuedFrames (examplePathProducer [exampleFrame] [[]]))
     + length (fifoBuffers (audioBufferFifo (exampleSampleFifo [])))
     \<le> pathCapacity (examplePathProducer [exampleFrame] [[]])"
    by (simp add: queuedPaths_def queuedFrames_def pathCapacity_def examplePathProducer_def
          exampleGenerator_def exampleSampleFifo_def)
  have "queuedPaths ((examplePathProducer [] [])\<lparr>leftChannelFFTPath := examplePath\<rparr>) = []"
    using process_keeps_latest_path [OF example_process room] by blast
  then show ?thesis
    using room example_process by simp
qed

end
